theory Spec2Isabelle
  imports Main
begin

section \<open>Python values: exceptions, log records, strings\<close>

text \<open>
  A call that may raise returns \<open>exn + 'a\<close>: \<open>Inl\<close> carries the exception, \<open>Inr\<close> the
  returned value. An exception is its class and its message (\<open>str(e)\<close>). Only subclasses
  of \<open>Exception\<close> are modelled, so \<open>except Exception\<close> catches every \<open>exn\<close>.
  \<open>IOError\<close> is an alias of \<open>OSError\<close> in Python 3; \<open>FileNotFoundError\<close> and
  \<open>PermissionError\<close> are subclasses of \<open>OSError\<close>. \<open>X_wmi\<close> is \<open>wmi.x_wmi\<close>,
  \<open>LogicError\<close> is \<open>pyopencl.LogicError\<close>, \<open>NVMLError\<close> is \<open>py3nvml\<close>'s and
  \<open>CalledProcessError\<close> is \<open>subprocess\<close>'s.
\<close>

datatype exn_class =
    OSError | FileNotFoundError | PermissionError
  | IndexError | ValueError | TypeError | AttributeError
  | X_wmi | LogicError | NVMLError | CalledProcessError | RuntimeError

datatype exn = Exn exn_class string




datatype level = DEBUG | INFO | WARNING | ERROR

type_synonym log = "(level \<times> string) list"

text \<open>
  Strings are lists of 8-bit characters; \<open>str.upper\<close>, \<open>str.lower\<close> and
  \<open>str.capitalize\<close> are modelled on the ASCII letters, which is what they do on the
  class names and dictionary keys of this program.
\<close>

definition ascii_lowercase :: string where
  "ascii_lowercase = ''abcdefghijklmnopqrstuvwxyz''"

definition ascii_uppercase :: string where
  "ascii_uppercase = ''ABCDEFGHIJKLMNOPQRSTUVWXYZ''"

definition upper_char :: "char \<Rightarrow> char" where
  "upper_char c = (case map_of (zip ascii_lowercase ascii_uppercase) c of Some u \<Rightarrow> u | None \<Rightarrow> c)"

definition lower_char :: "char \<Rightarrow> char" where
  "lower_char c = (case map_of (zip ascii_uppercase ascii_lowercase) c of Some l \<Rightarrow> l | None \<Rightarrow> c)"

definition upper :: "string \<Rightarrow> string" where
  "upper s = map upper_char s"

fun capitalize :: "string \<Rightarrow> string" where
  "capitalize [] = []"
| "capitalize (c # cs) = upper_char c # map lower_char cs"

text \<open>\<open>s.replace(" ", "_")\<close>: every space becomes an underscore.\<close>

definition replace_space :: "string \<Rightarrow> string" where
  "replace_space s = map (\<lambda>c. if c = CHR '' '' then CHR ''_'' else c) s"

text \<open>\<open>sep.join(xs)\<close>.\<close>

fun join :: "string \<Rightarrow> string list \<Rightarrow> string" where
  "join sep [] = []"
| "join sep [x] = x"
| "join sep (x # y # ys) = x @ sep @ join sep (y # ys)"

text \<open>Decimal rendering of a natural number, and \<open>str.zfill\<close>.\<close>

definition digit_char :: "nat \<Rightarrow> char" where
  "digit_char n = ''0123456789'' ! (n mod 10)"

fun show_nat :: "nat \<Rightarrow> string" where
  "show_nat n = (if n < 10 then [digit_char n] else show_nat (n div 10) @ [digit_char n])"

definition zfill :: "nat \<Rightarrow> string \<Rightarrow> string" where
  "zfill w s = replicate (w - length s) (CHR ''0'') @ s"

text \<open>The ASCII digits.\<close>

definition is_digit :: "char \<Rightarrow> bool" where
  "is_digit c = (c \<in> set ''0123456789'')"

section \<open>The clock: \<open>time.strftime\<close>\<close>

text \<open>
  \<open>time.strftime(fmt)\<close> formats the local time at the moment of the call. The reading of
  the clock is a parameter; the directives the program uses are interpreted as the C
  library does: \<open>%Y\<close> the year in decimal, \<open>%m %d %H %M %S\<close> two digits, zero padded.
\<close>

record struct_time =
  tm_year :: nat
  tm_mon :: nat
  tm_mday :: nat
  tm_hour :: nat
  tm_min :: nat
  tm_sec :: nat

definition directive :: "char \<Rightarrow> struct_time \<Rightarrow> string" where
  "directive d t =
     (if d = CHR ''Y'' then show_nat (tm_year t)
      else if d = CHR ''m'' then zfill 2 (show_nat (tm_mon t))
      else if d = CHR ''d'' then zfill 2 (show_nat (tm_mday t))
      else if d = CHR ''H'' then zfill 2 (show_nat (tm_hour t))
      else if d = CHR ''M'' then zfill 2 (show_nat (tm_min t))
      else if d = CHR ''S'' then zfill 2 (show_nat (tm_sec t))
      else [CHR ''%'', d])"

fun strftime :: "string \<Rightarrow> struct_time \<Rightarrow> string" where
  "strftime [] t = []"
| "strftime [c] t = [c]"
| "strftime (c # d # fmt) t =
     (if c = CHR ''%'' then directive d t @ strftime fmt t else c # strftime (d # fmt) t)"

text \<open>
  \<open>os.path.join(a, b)\<close> for one separator character \<open>sep\<close> (\<open>/\<close> on POSIX, the backslash
  on Windows), where \<open>b\<close> carries no drive letter.
\<close>

definition os_path_join :: "char \<Rightarrow> string \<Rightarrow> string \<Rightarrow> string" where
  "os_path_join sep a b =
     (if b \<noteq> [] \<and> hd b = sep then b
      else if a = [] \<or> last a = sep then a @ b
      else a @ [sep] @ b)"

section \<open>report.py\<close>

text \<open>
  A \<open>Component\<close> is any object with \<open>get_summary()\<close> and \<open>get_details()\<close>. The compiler
  calls each method at most once per report, so a component is its class name and the
  outcome of each call.
\<close>

record component =
  class_name :: string
  get_summary :: "exn + string"
  get_details :: "exn + string"

text \<open>
  The \<open>Report\<close> object: \<open>components\<close> is the dictionary from component name to the value
  of its selection variable, in insertion order; the two options are the values of their
  \<open>BooleanVar\<close>s.
\<close>

record report =
  components :: "(string \<times> bool) list"
  all_components_selection :: bool
  detailed_report_option :: bool

text \<open>\<open>Report._build_report_file_path\<close>; \<open>now\<close> is the clock at the call.\<close>

definition build_report_file_path :: "char \<Rightarrow> struct_time \<Rightarrow> string \<Rightarrow> string" where
  "build_report_file_path sep now pc_name =
     (let timestamp = strftime ''%Y%m%d_%H%M%S'' now;
          sanitized_pc_name = (if pc_name \<noteq> [] then replace_space pc_name else ''unnamed_pc'');
          filename = ''hardware_report_'' @ sanitized_pc_name @ ''_'' @ timestamp @ ''.md''
      in os_path_join sep ''result'' filename)"

text \<open>\<open>Report._generate_overview\<close>: the loop over \<open>*components\<close>, with its accumulator.\<close>

fun overview_loop :: "string \<Rightarrow> component list \<Rightarrow> exn + string" where
  "overview_loop overview_content [] = Inr overview_content"
| "overview_loop overview_content (c # cs) =
     (let content1 = overview_content @ ''## **'' @ upper (class_name c) @ '' Information**\<newline>''
      in case get_summary c of
           Inl e \<Rightarrow> Inl e
         | Inr s \<Rightarrow> overview_loop (content1 @ s @ ''\<newline>---\<newline>'') cs)"

definition generate_overview :: "component list \<Rightarrow> exn + string" where
  "generate_overview cs = overview_loop ''# **Hardware Overview**\<newline>\<newline>'' cs"

text \<open>\<open>Report._generate_full_details\<close>.\<close>

fun full_details_loop :: "string \<Rightarrow> component list \<Rightarrow> exn + string" where
  "full_details_loop details_content [] = Inr details_content"
| "full_details_loop details_content (c # cs) =
     (let content1 = details_content @ ''\<newline>## Detailed '' @ upper (class_name c) @ '' Information\<newline>''
      in case get_details c of
           Inl e \<Rightarrow> Inl e
         | Inr d \<Rightarrow> full_details_loop (content1 @ d @ ''\<newline>---\<newline>'') cs)"

definition generate_full_details :: "component list \<Rightarrow> exn + string" where
  "generate_full_details cs = full_details_loop [] cs"

text \<open>
  \<open>Report._generate_selected_component_details\<close>: the loop over
  \<open>self.components.items()\<close>; \<open>components_map\<close> is the dictionary literal of the method.
  The logger's records are appended to the log, which survives a raised exception.
\<close>

definition components_map ::
  "component \<Rightarrow> component \<Rightarrow> component \<Rightarrow> component \<Rightarrow> component \<Rightarrow> component \<Rightarrow> component
     \<Rightarrow> component \<Rightarrow> string \<Rightarrow> component option" where
  "components_map system cpu gpu ram disk network motherboard bios =
     map_of [(''system'', system), (''cpu'', cpu), (''gpu'', gpu), (''ram'', ram),
             (''disk'', disk), (''network'', network), (''motherboard'', motherboard),
             (''bios'', bios)]"

fun selected_loop ::
  "(string \<Rightarrow> component option) \<Rightarrow> string \<Rightarrow> (string \<times> bool) list \<Rightarrow> log \<Rightarrow> (exn + string) \<times> log" where
  "selected_loop cmap details_content [] lg = (Inr details_content, lg)"
| "selected_loop cmap details_content ((component_name, var) # rest) lg =
     (if var then
        (case cmap component_name of
           Some component_instance \<Rightarrow>
             (let lg1 = lg @ [(DEBUG, ''Including details for '' @ component_name @ ''.'')];
                  content1 = details_content @ ''\<newline>## Detailed '' @ capitalize component_name
                               @ '' Information\<newline>''
              in case get_details component_instance of
                   Inl e \<Rightarrow> (Inl e, lg1)
                 | Inr d \<Rightarrow> selected_loop cmap (content1 @ d @ ''\<newline>---\<newline>'') rest lg1)
         | None \<Rightarrow>
             selected_loop cmap details_content rest
               (lg @ [(WARNING, ''Details not available for '' @ component_name @ ''.'')]))
      else selected_loop cmap details_content rest lg)"

definition generate_selected_component_details ::
  "report \<Rightarrow> component \<Rightarrow> component \<Rightarrow> component \<Rightarrow> component \<Rightarrow> component \<Rightarrow> component
     \<Rightarrow> component \<Rightarrow> component \<Rightarrow> log \<Rightarrow> (exn + string) \<times> log" where
  "generate_selected_component_details self system cpu gpu ram disk network motherboard bios lg =
     selected_loop (components_map system cpu gpu ram disk network motherboard bios) []
       (components self) lg"

text \<open>
  \<open>repr\<close> of a list of names, for the one log record that prints it (names without
  quotes or backslashes, as the dictionary keys are).
\<close>

definition repr_names :: "string list \<Rightarrow> string" where
  "repr_names xs = ''['' @ join '', '' (map (\<lambda>x. [CHR 0x27] @ x @ [CHR 0x27]) xs) @ '']''"

text \<open>
  \<open>Report._compile_report_content\<close>; \<open>now\<close> is the clock at the call. The three parts
  are appended in the order of the source; an exception raised by a component ends the
  compilation.
\<close>

definition compile_report_content ::
  "report \<Rightarrow> struct_time \<Rightarrow> component \<Rightarrow> component \<Rightarrow> component \<Rightarrow> component \<Rightarrow> component
     \<Rightarrow> component \<Rightarrow> component \<Rightarrow> component \<Rightarrow> string \<Rightarrow> log \<Rightarrow> (exn + string) \<times> log" where
  "compile_report_content self now system cpu gpu ram disk network motherboard bios pc_name lg =
     (let timestamp = strftime ''%Y-%m-%d %H:%M:%S'' now;
          content0 = ''# Hardware Report\<newline>\<newline>**Generated on:** '' @ timestamp @ ''\<newline>'';
          content1 = (if pc_name \<noteq> [] then content0 @ ''**PC Name:** '' @ pc_name @ ''\<newline>''
                      else content0);
          all8 = [system, cpu, gpu, ram, disk, network, motherboard, bios];
          (r2, lg2) =
            (if all_components_selection self then
               (case generate_overview all8 of
                  Inl e \<Rightarrow> (Inl e, lg @ [(DEBUG, ''Including all components in the report overview.'')])
                | Inr ov \<Rightarrow>
                    (Inr (content1 @ ov),
                     lg @ [(DEBUG, ''Including all components in the report overview.'')]))
             else (Inr content1, lg))
      in case r2 of
           Inl e \<Rightarrow> (Inl e, lg2)
         | Inr content2 \<Rightarrow>
             (if detailed_report_option self then
                (case generate_full_details all8 of
                   Inl e \<Rightarrow>
                     (Inl e, lg2 @ [(DEBUG, ''Including detailed information for all components.'')])
                 | Inr fd \<Rightarrow>
                     (Inr (content2 @ fd),
                      lg2 @ [(DEBUG, ''Including detailed information for all components.'')]))
              else
                (let selected_components = map fst (filter snd (components self))
                 in if selected_components \<noteq> [] then
                      (case generate_selected_component_details self system cpu gpu ram disk
                              network motherboard bios
                              (lg2 @ [(DEBUG, ''Generating report for selected components: ''
                                              @ repr_names selected_components)]) of
                         (Inl e, lg3) \<Rightarrow> (Inl e, lg3)
                       | (Inr sd, lg3) \<Rightarrow> (Inr (content2 @ sd), lg3))
                    else
                      (Inr (content2 @ ''\<newline>No components selected.''),
                       lg2 @ [(WARNING, ''No components selected; generating an empty report.'')]))))"

section \<open>noctua.py\<close>

text \<open>
  \<open>Noctua.initialize_hardware_component_instances\<close> instantiates the classes of
  \<open>hardware_classes\<close> in this order, and \<open>generate_hardware_report\<close> passes the instances
  to \<open>Report.generate_report\<close> in the same order.
\<close>

definition hardware_classes :: "string list" where
  "hardware_classes =
     [''System'', ''CPU'', ''GPU'', ''RAM'', ''Disk'', ''Network'', ''Motherboard'', ''BIOS'']"

text \<open>
  \<open>Noctua.initialize_hardware_selection_variables\<close>: the dictionary of selection
  variables, each a fresh \<open>BooleanVar\<close> (value \<open>False\<close>), in insertion order.
\<close>

definition initialize_hardware_selection_variables :: "(string \<times> bool) list" where
  "initialize_hardware_selection_variables =
     [(''system'', False), (''cpu'', False), (''ram'', False), (''disk'', False),
      (''network'', False), (''gpu'', False), (''motherboard'', False), (''bios'', False)]"

section \<open>Lookup tables: hardware/ram.py and hardware/bios.py\<close>

text \<open>
  A dictionary literal is the list of its items; \<open>d.get(key, default)\<close> looks the key up
  and falls back to the default.
\<close>

definition dict_get :: "('k \<times> 'v) list \<Rightarrow> 'k \<Rightarrow> 'v \<Rightarrow> 'v" where
  "dict_get d k dflt = (case map_of d k of Some v \<Rightarrow> v | None \<Rightarrow> dflt)"

text \<open>\<open>RAM._get_form_factor\<close>.\<close>

definition form_factors :: "(int \<times> string) list" where
  "form_factors =
     [(0, ''Unknown''), (1, ''Other''), (2, ''SIP''), (3, ''DIP''), (4, ''ZIP''), (5, ''SOJ''),
      (6, ''Proprietary''), (7, ''SIMM''), (8, ''DIMM''), (9, ''TSOP''), (10, ''PGA''),
      (11, ''RIMM''), (12, ''SODIMM''), (13, ''SRIMM''), (14, ''FB-DIMM'')]"

definition get_form_factor :: "int \<Rightarrow> string" where
  "get_form_factor form_factor_code = dict_get form_factors form_factor_code ''Unknown''"

text \<open>\<open>RAM._get_memory_type\<close>; the table has no entry for 23.\<close>

definition memory_types :: "(int \<times> string) list" where
  "memory_types =
     [(0, ''Unknown''), (1, ''Other''), (2, ''DRAM''), (3, ''Synchronous DRAM''),
      (4, ''Cache DRAM''), (5, ''EDO''), (6, ''EDRAM''), (7, ''VRAM''), (8, ''SRAM''),
      (9, ''RAM''), (10, ''ROM''), (11, ''Flash''), (12, ''EEPROM''), (13, ''FEPROM''),
      (14, ''EPROM''), (15, ''CDRAM''), (16, ''3DRAM''), (17, ''SDRAM''), (18, ''SGRAM''),
      (19, ''RDRAM''), (20, ''DDR''), (21, ''DDR2''), (22, ''DDR2 FB-DIMM''), (24, ''DDR3''),
      (25, ''FBD2'')]"

definition get_memory_type :: "int \<Rightarrow> string" where
  "get_memory_type memory_type_code = dict_get memory_types memory_type_code ''Unknown''"

text \<open>\<open>BIOS._get_bios_characteristics\<close>: the codes of the list, each looked up, joined.\<close>

definition characteristic_descriptions :: "(int \<times> string) list" where
  "characteristic_descriptions =
     [(0, ''Reserved''), (1, ''BIOS Characteristics Not Supported''), (2, ''ISA is supported''),
      (3, ''MCA is supported''), (4, ''EISA is supported''), (5, ''PCI is supported''),
      (6, ''PC Card (PCMCIA) is supported''), (7, ''Plug and Play is supported''),
      (8, ''APM is supported''), (9, ''BIOS is upgradeable''),
      (10, ''BIOS shadowing is allowed''), (11, ''VLB is supported''),
      (12, ''ESCD support is available''), (13, ''Boot from CD is supported''),
      (14, ''Selectable Boot is supported''), (15, ''BIOS ROM is socketed''),
      (16, ''Boot from PCMCIA is supported''), (17, ''EDD is supported''),
      (18, ''Print screen service is supported''),
      (19, ''8042 keyboard services are supported''), (20, ''Serial services are supported''),
      (21, ''Printer services are supported''),
      (22, ''CGA/Mono video services are supported''), (23, ''NEC PC-98''),
      (24, ''ACPI is supported''), (25, ''USB legacy is supported''), (26, ''AGP is supported''),
      (27, ''I2O boot is supported''), (28, ''LS-120 boot is supported''),
      (29, ''ATAPI ZIP drive boot is supported''), (30, ''1394 boot is supported''),
      (31, ''Smart battery is supported''), (32, ''BIOS Boot Specification is supported''),
      (33, ''Function key-initiated network boot is supported''),
      (34, ''Targeted content distribution is supported''), (35, ''UEFI is supported'')]"

definition get_bios_characteristics :: "int list \<Rightarrow> string" where
  "get_bios_characteristics characteristics =
     join '', '' (map (\<lambda>char. dict_get characteristic_descriptions char ''Unknown'') characteristics)"

section \<open>report.py: writing the report\<close>







section \<open>The expected-versus-actual formatters: hardware/cpu.py and hardware/ram.py\<close>

text \<open>
  \<open>re.findall(r"\d+\.\d+", s)\<close>: the matches from left to right, without overlap.
  \<open>match_decimal s\<close> is the match at the start of \<open>s\<close> with what follows it: the longest
  run of digits, a point, and the longest run of digits, both runs non-empty (a shorter
  first run is followed by a digit, not by the point, so backtracking finds nothing
  more). Where no match starts, the search moves one character on. The digits are the
  ASCII digits.
\<close>

definition match_decimal :: "string \<Rightarrow> (string \<times> string) option" where
  "match_decimal s =
     (let d1 = takeWhile is_digit s
      in if d1 = [] then None
         else (case dropWhile is_digit s of
                 [] \<Rightarrow> None
               | c # r2 \<Rightarrow>
                   (let d2 = takeWhile is_digit r2
                    in if c = CHR ''.'' \<and> d2 \<noteq> []
                       then Some (d1 @ [c] @ d2, dropWhile is_digit r2)
                       else None)))"

function findall_decimal :: "string \<Rightarrow> string list" where
  "findall_decimal [] = []"
| "findall_decimal (c # cs) =
     (case match_decimal (c # cs) of
        Some (m, rest) \<Rightarrow> m # findall_decimal rest
      | None \<Rightarrow> findall_decimal cs)"
  by pat_completeness auto
termination
proof (relation "measure length")
  show "wf (measure length)" by simp
next
  fix c :: char and cs x2 m rest
  assume "match_decimal (c # cs) = Some x2" and "(m, rest) = x2"
  then have "match_decimal (c # cs) = Some (m, rest)" by simp
  then obtain r2 where "dropWhile is_digit (c # cs) = CHR ''.'' # r2" and "rest = dropWhile is_digit r2"
    by (auto simp add: match_decimal_def Let_def split: if_splits list.splits)
  then have "length rest \<le> length r2" and "length r2 < length (dropWhile is_digit (c # cs))"
    by (simp_all add: length_dropWhile_le)
  moreover have "length (dropWhile is_digit (c # cs)) \<le> length (c # cs)"
    by (rule length_dropWhile_le)
  ultimately show "(rest, c # cs) \<in> measure length" by simp
next
  fix c :: char and cs
  assume "match_decimal (c # cs) = None"
  show "(cs, c # cs) \<in> measure length" by simp
qed





section \<open>The collectors: hardware/*.py\<close>

text \<open>
  Every call into an interface of the operating system (WMI, psutil, cpuinfo, OpenCL,
  NVML, a subprocess) is a parameter: its outcome is the exception it raises or the
  value it returns, and ranges over all of them. For System, RAM, Disk, Network and
  Motherboard, and for the GPU's six \<open>_fetch_*\<close> methods, the parameter is the outcome
  of the \<open>_fetch_*\<close> call as a whole. The collectors' calls of the logger are left out:
  no value depends on them.
\<close>

subsection \<open>hardware/bios.py\<close>

text \<open>
  An instance of \<open>Win32_BIOS\<close>, its text properties as an f-string renders them;
  \<open>ReleaseDate\<close> and \<open>BIOSCharacteristics\<close> may be \<open>None\<close>.
\<close>

record bios_entry =
  Manufacturer :: string
  SMBIOSBIOSVersion :: string
  ReleaseDate :: "string option"
  SMBIOSMajorVersion :: nat
  SMBIOSMinorVersion :: nat
  BIOSCharacteristics :: "int list option"
  CurrentLanguage :: string
  PrimaryBIOS :: bool

text \<open>\<open>BIOS._format_date\<close>.\<close>

definition format_date :: "string option \<Rightarrow> string" where
  "format_date date_str =
     (case date_str of
        None \<Rightarrow> ''Unknown''
      | Some d \<Rightarrow>
          if d = [] then ''Unknown''
          else take 4 d @ ''-'' @ take 2 (drop 4 d) @ ''-'' @ take 2 (drop 6 d))"


text \<open>
  \<open>BIOS._fetch_bios_details\<close>: the loop appends; iterating over the characteristics
  raises \<open>TypeError\<close> when they are \<open>None\<close>.
\<close>

fun bios_details_loop :: "string \<Rightarrow> bios_entry list \<Rightarrow> exn + string" where
  "bios_details_loop details [] = Inr details"
| "bios_details_loop details (bios_entry # rest) =
     (case BIOSCharacteristics bios_entry of
        None \<Rightarrow> Inl (Exn TypeError ''NoneType object is not iterable'')
      | Some characteristics \<Rightarrow>
          bios_details_loop
            (details
               @ ''**Manufacturer:** '' @ Manufacturer bios_entry @ ''\<newline>''
               @ ''**Version:** '' @ SMBIOSBIOSVersion bios_entry @ ''\<newline>''
               @ ''**Release Date:** '' @ format_date (ReleaseDate bios_entry) @ ''\<newline>''
               @ ''**SMBIOS Version:** '' @ show_nat (SMBIOSMajorVersion bios_entry) @ ''.''
               @ show_nat (SMBIOSMinorVersion bios_entry) @ ''\<newline>''
               @ ''**BIOS Characteristics:** '' @ get_bios_characteristics characteristics @ ''\<newline>''
               @ ''**BIOS Language:** '' @ CurrentLanguage bios_entry @ ''\<newline>''
               @ ''**Primary BIOS:** '' @ (if PrimaryBIOS bios_entry then ''Yes'' else ''No'') @ ''\<newline>'')
            rest)"

definition fetch_bios_details :: "exn + bios_entry list \<Rightarrow> exn + string" where
  "fetch_bios_details win32_bios =
     (case win32_bios of Inl e \<Rightarrow> Inl e | Inr entries \<Rightarrow> bios_details_loop [] entries)"



subsection \<open>hardware/system.py, ram.py, disk.py, network.py, motherboard.py\<close>











subsection \<open>hardware/cpu.py\<close>

text \<open>
  A value of the dictionary of \<open>cpuinfo.get_cpu_info()\<close> is a string, an integer or a
  list of strings; \<open>py_str\<close> is \<open>str()\<close>, as an f-string applies it.
\<close>

datatype info_value = Str string | Num int | StrList "string list"

definition show_int :: "int \<Rightarrow> string" where
  "show_int i = (if i < 0 then ''-'' @ show_nat (nat (- i)) else show_nat (nat i))"

fun py_str :: "info_value \<Rightarrow> string" where
  "py_str (Str s) = s"
| "py_str (Num i) = show_int i"
| "py_str (StrList xs) = repr_names xs"

text \<open>\<open>str()\<close> of the result of \<open>psutil.cpu_count\<close>, an integer or \<open>None\<close>.\<close>

fun str_count :: "nat option \<Rightarrow> string" where
  "str_count None = ''None''"
| "str_count (Some n) = show_nat n"


text \<open>
  The CPU object: the dictionary read at construction, and the two psutil calls.
  \<open>psutil_cpu_freq\<close> is the \<open>current\<close> field of the result of \<open>psutil.cpu_freq()\<close>, or
  \<open>None\<close> when psutil returns \<open>None\<close> (no frequency could be determined).
\<close>

record 'f cpu_env =
  cpu_info :: "(string \<times> info_value) list"
  psutil_cpu_count :: "bool \<Rightarrow> exn + nat option"
  psutil_cpu_freq :: "exn + 'f option"

text \<open>\<open>CPU.get_summary\<close>: no handler.\<close>

definition cpu_get_summary :: "'f cpu_env \<Rightarrow> exn + string" where
  "cpu_get_summary self =
     (let name = py_str (dict_get (cpu_info self) ''brand_raw'' (Str ''Unknown''))
      in case psutil_cpu_count self False of
           Inl e \<Rightarrow> Inl e
         | Inr cores \<Rightarrow>
             (case psutil_cpu_count self True of
                Inl e \<Rightarrow> Inl e
              | Inr threads \<Rightarrow>
                  Inr (''**Name:** '' @ name @ ''\<newline>''
                         @ ''**Cores:** '' @ str_count cores @ ''\<newline>''
                         @ ''**Threads:** '' @ str_count threads @ ''\<newline>''
                         @ ''**Architecture:** ''
                         @ py_str (dict_get (cpu_info self) ''arch'' (Str ''Unknown'')) @ ''\<newline>'')))"



subsection \<open>hardware/gpu.py\<close>








section \<open>Vocabulary of the properties\<close>

text \<open>
  The parts of a compiled report, named so that the properties can speak of them: the
  header that \<open>_compile_report_content\<close> builds first, an overview section and a detail
  section (a header line, the body, a horizontal rule), and the sections of a selection.
\<close>

definition report_header :: "struct_time \<Rightarrow> string \<Rightarrow> string" where
  "report_header now pc_name =
     ''# Hardware Report\<newline>\<newline>**Generated on:** '' @ strftime ''%Y-%m-%d %H:%M:%S'' now @ ''\<newline>''
       @ (if pc_name \<noteq> [] then ''**PC Name:** '' @ pc_name @ ''\<newline>'' else [])"

definition overview_section :: "string \<times> string \<Rightarrow> string" where
  "overview_section sec =
     ''## **'' @ fst sec @ '' Information**\<newline>'' @ snd sec @ ''\<newline>---\<newline>''"

definition overview_text :: "(string \<times> string) list \<Rightarrow> string" where
  "overview_text secs = ''# **Hardware Overview**\<newline>\<newline>'' @ concat (map overview_section secs)"

definition detail_section :: "string \<times> string \<Rightarrow> string" where
  "detail_section sec =
     ''\<newline>## Detailed '' @ fst sec @ '' Information\<newline>'' @ snd sec @ ''\<newline>---\<newline>''"

definition details_text :: "(string \<times> string) list \<Rightarrow> string" where
  "details_text secs = concat (map detail_section secs)"

definition selected_sections ::
  "(string \<times> bool) list \<Rightarrow> (string \<Rightarrow> string option) \<Rightarrow> (string \<times> string) list" where
  "selected_sections sel body =
     concat (map (\<lambda>(name, var).
                    if var then (case body name of Some d \<Rightarrow> [(capitalize name, d)] | None \<Rightarrow> [])
                    else []) sel)"

text \<open>
  A reading of the clock in the range where \<open>%Y\<close> has four digits, and the shape
  \<open>yyyyMMdd_HHmmss\<close>.
\<close>

definition valid_time :: "struct_time \<Rightarrow> bool" where
  "valid_time t =
     (1000 \<le> tm_year t \<and> tm_year t \<le> 9999 \<and> 1 \<le> tm_mon t \<and> tm_mon t \<le> 12 \<and>
      1 \<le> tm_mday t \<and> tm_mday t \<le> 31 \<and> tm_hour t \<le> 23 \<and> tm_min t \<le> 59 \<and> tm_sec t \<le> 61)"

definition timestamp_shape :: "string \<Rightarrow> bool" where
  "timestamp_shape ts =
     (length ts = 15 \<and> list_all is_digit (take 8 ts) \<and> ts ! 8 = CHR ''_'' \<and>
      list_all is_digit (drop 9 ts))"

text \<open>Inputs for the concrete instances: a clock reading and a component whose calls return.\<close>

definition example_time :: struct_time where
  "example_time = \<lparr>tm_year = 2024, tm_mon = 3, tm_mday = 9, tm_hour = 7, tm_min = 5, tm_sec = 0\<rparr>"

definition working_component :: "string \<Rightarrow> string \<Rightarrow> string \<Rightarrow> component" where
  "working_component cls s d = \<lparr>class_name = cls, get_summary = Inr s, get_details = Inr d\<rparr>"

text \<open>
  The lines of a text (the segments between newline characters), and its section
  headers: the lines that start with \<open>##\<close> and a space.
\<close>

fun split_lines :: "string \<Rightarrow> string list" where
  "split_lines [] = [[]]"
| "split_lines (c # cs) =
     (if c = CHR 0x0A then [] # split_lines cs
      else (case split_lines cs of l # ls \<Rightarrow> (c # l) # ls | [] \<Rightarrow> [[c]]))"

definition is_section_header :: "string \<Rightarrow> bool" where
  "is_section_header l = (take 3 l = ''## '')"

definition section_headers :: "string \<Rightarrow> string list" where
  "section_headers content = filter is_section_header (split_lines content)"

text \<open>
  The keys of \<open>components_map\<close> in \<open>_generate_selected_component_details\<close>.
\<close>

definition component_keys :: "string list" where
  "component_keys =
     [''system'', ''cpu'', ''gpu'', ''ram'', ''disk'', ''network'', ''motherboard'', ''bios'']"

text \<open>
  The naming convention as the specification words it, for the domains System, CPU,
  GPU, RAM, Disk, Network, Motherboard, BIOS: a detail section is headed
  \<open>## Detailed <Domain> Information\<close>, an overview section \<open>## <DOMAIN> Information\<close>.
\<close>

definition spec_overview_header :: "string \<Rightarrow> string" where
  "spec_overview_header domain = ''## '' @ upper domain @ '' Information''"

definition spec_detail_header :: "string \<Rightarrow> string" where
  "spec_detail_header domain = ''## Detailed '' @ domain @ '' Information''"

definition follows_naming_convention :: "string \<Rightarrow> bool" where
  "follows_naming_convention content =
     list_all (\<lambda>h. h \<in> set (map spec_overview_header hardware_classes
                               @ map spec_detail_header hardware_classes))
       (section_headers content)"



text \<open>
  A string holds a decimal number when a digit, a point and a digit follow one another;
  a decimal literal is a non-empty run of digits, a point, and a non-empty run of
  digits.
\<close>

fun has_decimal :: "string \<Rightarrow> bool" where
  "has_decimal (a # b # c # rest) =
     (is_digit a \<and> b = CHR ''.'' \<and> is_digit c \<or> has_decimal (b # c # rest))"
| "has_decimal s = False"















section \<open>Helper lemmas\<close>

declare show_nat.simps [simp del]

lemma upper_class_names:
  "upper ''System'' = ''SYSTEM''" "upper ''CPU'' = ''CPU''" "upper ''GPU'' = ''GPU''"
  "upper ''RAM'' = ''RAM''" "upper ''Disk'' = ''DISK''" "upper ''Network'' = ''NETWORK''"
  "upper ''Motherboard'' = ''MOTHERBOARD''" "upper ''BIOS'' = ''BIOS''"
  by (simp_all add: upper_def upper_char_def ascii_lowercase_def ascii_uppercase_def)

lemma no_flag_selected:
  "list_all (\<lambda>(name, var). \<not> var) sel \<Longrightarrow> map fst (filter snd sel) = []"
  by (induction sel) auto

lemma overview_loop_sections:
  "map get_summary cs = map Inr bodies \<Longrightarrow>
   overview_loop acc cs =
     Inr (acc @ concat (map overview_section (zip (map (\<lambda>c. upper (class_name c)) cs) bodies)))"
proof (induction cs arbitrary: acc bodies)
  case Nil
  then show ?case by simp
next
  case (Cons c cs)
  then obtain b bs where bodies: "bodies = b # bs" by (cases bodies) auto
  with Cons.prems have b: "get_summary c = Inr b" and bs: "map get_summary cs = map Inr bs"
    by auto
  show ?case
    by (simp add: bodies b Cons.IH[OF bs] overview_section_def)
qed

lemma generate_overview_sections:
  "map get_summary cs = map Inr bodies \<Longrightarrow>
   generate_overview cs = Inr (overview_text (zip (map (\<lambda>c. upper (class_name c)) cs) bodies))"
  by (simp add: generate_overview_def overview_text_def overview_loop_sections)

lemma full_details_loop_sections:
  "map get_details cs = map Inr bodies \<Longrightarrow>
   full_details_loop acc cs =
     Inr (acc @ details_text (zip (map (\<lambda>c. upper (class_name c)) cs) bodies))"
proof (induction cs arbitrary: acc bodies)
  case Nil
  then show ?case by (simp add: details_text_def)
next
  case (Cons c cs)
  then obtain b bs where bodies: "bodies = b # bs" by (cases bodies) auto
  with Cons.prems have b: "get_details c = Inr b" and bs: "map get_details cs = map Inr bs"
    by auto
  show ?case
    by (simp add: bodies b Cons.IH[OF bs] detail_section_def details_text_def)
qed

lemma generate_full_details_sections:
  "map get_details cs = map Inr bodies \<Longrightarrow>
   generate_full_details cs = Inr (details_text (zip (map (\<lambda>c. upper (class_name c)) cs) bodies))"
  by (simp add: generate_full_details_def full_details_loop_sections)

lemma selected_loop_sections:
  assumes "\<And>n. rel_option (\<lambda>c d. get_details c = Inr d) (cmap n) (body n)"
  shows "fst (selected_loop cmap acc sel lg) = Inr (acc @ details_text (selected_sections sel body))"
proof (induction sel arbitrary: acc lg)
  case Nil
  then show ?case by (simp add: details_text_def selected_sections_def)
next
  case (Cons p sel)
  obtain name var where p: "p = (name, var)" by (cases p)
  show ?case
  proof (cases var)
    case False
    then show ?thesis using Cons.IH by (simp add: p selected_sections_def details_text_def)
  next
    case True
    show ?thesis
    proof (cases "cmap name")
      case None
      with assms[of name] have "body name = None" by (cases "body name") auto
      then show ?thesis using True None Cons.IH
        by (simp add: p selected_sections_def details_text_def)
    next
      case (Some c)
      with assms[of name] obtain d where d: "body name = Some d" "get_details c = Inr d"
        by (cases "body name") auto
      then show ?thesis using True Some Cons.IH
        by (simp add: p selected_sections_def details_text_def detail_section_def)
    qed
  qed
qed

lemma fst_selected_case:
  "fst p = Inr x \<Longrightarrow>
   fst (case p of (Inl e, l) \<Rightarrow> (Inl e, l) | (Inr s, l) \<Rightarrow> (Inr (f s), l)) = Inr (f x)"
  by (cases p) auto

lemma components_map_bodies:
  assumes "map get_details [system, cpu, gpu, ram, disk, network, motherboard, bios]
           = map Inr [d1, d2, d3, d4, d5, d6, d7, d8]"
  shows "rel_option (\<lambda>c d. get_details c = Inr d)
           (components_map system cpu gpu ram disk network motherboard bios n)
           (map_of [(''system'', d1), (''cpu'', d2), (''gpu'', d3), (''ram'', d4),
                    (''disk'', d5), (''network'', d6), (''motherboard'', d7), (''bios'', d8)] n)"
  using assms by (simp add: components_map_def)

lemma digit_char_is_digit: "is_digit (digit_char n)"
proof -
  have "n mod 10 < length ''0123456789''" by simp
  then have "''0123456789'' ! (n mod 10) \<in> set ''0123456789''" by (rule nth_mem)
  then show ?thesis by (simp only: is_digit_def digit_char_def)
qed

lemma show_nat_digits: "list_all is_digit (show_nat n)"
proof (induction n rule: show_nat.induct)
  case (1 n)
  show ?case
  proof (cases "n < 10")
    case True
    then show ?thesis by (subst show_nat.simps) (simp add: digit_char_is_digit)
  next
    case False
    then show ?thesis using 1 by (subst show_nat.simps) (simp add: digit_char_is_digit)
  qed
qed

lemma length_show_nat_1: "n < 10 \<Longrightarrow> length (show_nat n) = 1"
  by (subst show_nat.simps) simp

lemma length_show_nat_2: "10 \<le> n \<Longrightarrow> n < 100 \<Longrightarrow> length (show_nat n) = 2"
  by (subst show_nat.simps) (simp add: length_show_nat_1)

lemma length_show_nat_3: "100 \<le> n \<Longrightarrow> n < 1000 \<Longrightarrow> length (show_nat n) = 3"
  by (subst show_nat.simps) (simp add: length_show_nat_2)

lemma length_show_nat_4: "1000 \<le> n \<Longrightarrow> n < 10000 \<Longrightarrow> length (show_nat n) = 4"
  by (subst show_nat.simps) (simp add: length_show_nat_3)

lemma zfill2_length: "n < 100 \<Longrightarrow> length (zfill 2 (show_nat n)) = 2"
  by (cases "n < 10") (simp_all add: zfill_def length_show_nat_1 length_show_nat_2)

lemma zeros_digits: "list_all is_digit (replicate k (CHR ''0''))"
  by (induction k) (simp_all add: is_digit_def)

lemma zfill2_digits: "list_all is_digit (zfill 2 (show_nat n))"
  by (simp add: zfill_def show_nat_digits zeros_digits)

lemma strftime_file_format:
  "strftime ''%Y%m%d_%H%M%S'' t =
     show_nat (tm_year t) @ zfill 2 (show_nat (tm_mon t)) @ zfill 2 (show_nat (tm_mday t)) @ ''_''
       @ zfill 2 (show_nat (tm_hour t)) @ zfill 2 (show_nat (tm_min t)) @ zfill 2 (show_nat (tm_sec t))"
  by (simp add: directive_def)

lemma strftime_file_shape:
  assumes "valid_time t"
  shows "timestamp_shape (strftime ''%Y%m%d_%H%M%S'' t)"
proof -
  have y: "length (show_nat (tm_year t)) = 4"
    using assms by (intro length_show_nat_4) (simp_all add: valid_time_def)
  have l: "length (zfill 2 (show_nat (tm_mon t))) = 2" "length (zfill 2 (show_nat (tm_mday t))) = 2"
    "length (zfill 2 (show_nat (tm_hour t))) = 2" "length (zfill 2 (show_nat (tm_min t))) = 2"
    "length (zfill 2 (show_nat (tm_sec t))) = 2"
    using assms by (simp_all add: zfill2_length valid_time_def)
  show ?thesis
    unfolding timestamp_shape_def strftime_file_format
    by (simp add: y l show_nat_digits zfill2_digits nth_append)
qed

lemma example_time_file: "strftime ''%Y%m%d_%H%M%S'' example_time = ''20240309_070500''"
  by (simp add: example_time_def directive_def zfill_def show_nat.simps digit_char_def)

lemma example_time_header: "strftime ''%Y-%m-%d %H:%M:%S'' example_time = ''2024-03-09 07:05:00''"
  by (simp add: example_time_def directive_def zfill_def show_nat.simps digit_char_def)

lemma dict_get_defined:
  "distinct (map fst d) \<Longrightarrow> (k, v) \<in> set d \<Longrightarrow> dict_get d k dflt = v"
  by (simp add: dict_get_def)

lemma dict_get_undefined:
  assumes "k \<notin> fst ` set d"
  shows "dict_get d k dflt = dflt"
proof -
  from assms have "map_of d k = None"
    by (simp add: map_of_eq_None_iff)
  then show ?thesis
    by (simp add: dict_get_def)
qed

lemma form_factors_keys: "distinct (map fst form_factors)"
  by (simp add: form_factors_def)

lemma memory_types_keys: "distinct (map fst memory_types)"
  by (simp add: memory_types_def)

lemma characteristic_descriptions_keys: "distinct (map fst characteristic_descriptions)"
  by (simp add: characteristic_descriptions_def)

lemma form_factors_domain: "fst ` set form_factors = {0..14}"
proof -
  have "{0..14::int} = set [0..14]" by simp
  also have "[0..14::int] = map fst form_factors"
    by (simp add: form_factors_def upto.simps)
  finally show ?thesis by simp
qed

lemma memory_types_domain: "fst ` set memory_types = {0..25} - {23}"
proof -
  have "{0..25::int} - {23} = set (filter (\<lambda>k. k \<noteq> 23) [0..25])" by auto
  also have "filter (\<lambda>k. k \<noteq> 23) [0..25::int] = map fst memory_types"
    by (simp add: memory_types_def upto.simps)
  finally show ?thesis by simp
qed

lemma characteristic_descriptions_domain: "fst ` set characteristic_descriptions = {0..35}"
proof -
  have "{0..35::int} = set [0..35]" by simp
  also have "[0..35::int] = map fst characteristic_descriptions"
    by (simp add: characteristic_descriptions_def upto.simps)
  finally show ?thesis by simp
qed

lemma split_lines_nonempty: "split_lines s \<noteq> []"
  by (induction s) (auto split: list.splits)

lemma split_lines_append_nl: "split_lines (a @ CHR 0x0A # b) = split_lines a @ split_lines b"
proof (induction a)
  case Nil
  then show ?case by simp
next
  case (Cons c a)
  obtain l ls where "split_lines a = l # ls"
    using split_lines_nonempty[of a] by (cases "split_lines a") auto
  then show ?case using Cons by simp
qed

lemma split_lines_single: "CHR 0x0A \<notin> set l \<Longrightarrow> split_lines l = [l]"
  by (induction l) auto

lemma section_headers_append_nl:
  "section_headers (a @ CHR 0x0A # b) = section_headers a @ section_headers b"
  by (simp add: section_headers_def split_lines_append_nl)

lemma section_headers_single:
  "CHR 0x0A \<notin> set l \<Longrightarrow> section_headers l = (if is_section_header l then [l] else [])"
  by (simp add: section_headers_def split_lines_single)

lemma section_headers_overview_section:
  assumes "CHR 0x0A \<notin> set name" and "section_headers body = []"
  shows "section_headers (overview_section (name, body) @ rest)
         = (''## **'' @ name @ '' Information**'') # section_headers rest"
proof -
  have eq: "overview_section (name, body) @ rest
      = (''## **'' @ name @ '' Information**'') @ CHR 0x0A # (body @ CHR 0x0A # (''---'' @ CHR 0x0A # rest))"
    by (simp add: overview_section_def)
  have h: "section_headers (''## **'' @ name @ '' Information**'') = [''## **'' @ name @ '' Information**'']"
    using assms(1) by (subst section_headers_single) (simp_all add: is_section_header_def)
  have r: "section_headers ''---'' = []"
    by (subst section_headers_single) (simp_all add: is_section_header_def)
  show ?thesis
    unfolding eq section_headers_append_nl h r assms(2) by simp
qed

lemma section_headers_detail_section:
  assumes "CHR 0x0A \<notin> set name" and "section_headers body = []"
  shows "section_headers (detail_section (name, body) @ rest)
         = (''## Detailed '' @ name @ '' Information'') # section_headers rest"
proof -
  have eq: "detail_section (name, body) @ rest
      = [] @ CHR 0x0A # ((''## Detailed '' @ name @ '' Information'') @ CHR 0x0A
           # (body @ CHR 0x0A # (''---'' @ CHR 0x0A # rest)))"
    by (simp add: detail_section_def)
  have e: "section_headers [] = []"
    by (simp add: section_headers_def is_section_header_def)
  have h: "section_headers (''## Detailed '' @ name @ '' Information'') = [''## Detailed '' @ name @ '' Information'']"
    using assms(1) by (subst section_headers_single) (simp_all add: is_section_header_def)
  have r: "section_headers ''---'' = []"
    by (subst section_headers_single) (simp_all add: is_section_header_def)
  show ?thesis
    unfolding eq section_headers_append_nl h r e assms(2) by simp
qed

lemma section_headers_overview_sections:
  assumes "list_all (\<lambda>sec. CHR 0x0A \<notin> set (fst sec) \<and> section_headers (snd sec) = []) secs"
  shows "section_headers (concat (map overview_section secs) @ rest)
         = map (\<lambda>sec. ''## **'' @ fst sec @ '' Information**'') secs @ section_headers rest"
  using assms
proof (induction secs)
  case Nil
  then show ?case by simp
next
  case (Cons sec secs)
  obtain name body where sec: "sec = (name, body)" by (cases sec)
  from Cons.prems have a: "CHR 0x0A \<notin> set name" "section_headers body = []"
    and b: "list_all (\<lambda>sec. CHR 0x0A \<notin> set (fst sec) \<and> section_headers (snd sec) = []) secs"
    by (simp_all add: sec)
  have "section_headers (overview_section (name, body) @ (concat (map overview_section secs) @ rest))
      = (''## **'' @ name @ '' Information**'') # section_headers (concat (map overview_section secs) @ rest)"
    by (rule section_headers_overview_section[OF a])
  then show ?case using Cons.IH[OF b] by (simp add: sec)
qed

lemma section_headers_detail_sections:
  assumes "list_all (\<lambda>sec. CHR 0x0A \<notin> set (fst sec) \<and> section_headers (snd sec) = []) secs"
  shows "section_headers (details_text secs @ rest)
         = map (\<lambda>sec. ''## Detailed '' @ fst sec @ '' Information'') secs @ section_headers rest"
  using assms
proof (induction secs)
  case Nil
  then show ?case by (simp add: details_text_def)
next
  case (Cons sec secs)
  obtain name body where sec: "sec = (name, body)" by (cases sec)
  from Cons.prems have a: "CHR 0x0A \<notin> set name" "section_headers body = []"
    and b: "list_all (\<lambda>sec. CHR 0x0A \<notin> set (fst sec) \<and> section_headers (snd sec) = []) secs"
    by (simp_all add: sec)
  have "section_headers (detail_section (name, body) @ (details_text secs @ rest))
      = (''## Detailed '' @ name @ '' Information'') # section_headers (details_text secs @ rest)"
    by (rule section_headers_detail_section[OF a])
  then show ?case using Cons.IH[OF b] by (simp add: sec details_text_def)
qed

lemma section_headers_overview_text:
  assumes "list_all (\<lambda>sec. CHR 0x0A \<notin> set (fst sec) \<and> section_headers (snd sec) = []) secs"
  shows "section_headers (overview_text secs @ rest)
         = map (\<lambda>sec. ''## **'' @ fst sec @ '' Information**'') secs @ section_headers rest"
proof -
  have eq: "overview_text secs @ rest
     = ''# **Hardware Overview**'' @ CHR 0x0A # ([] @ CHR 0x0A # (concat (map overview_section secs) @ rest))"
    by (simp add: overview_text_def)
  have t: "section_headers ''# **Hardware Overview**'' = []"
    by (subst section_headers_single) (simp_all add: is_section_header_def)
  have e: "section_headers [] = []"
    by (simp add: section_headers_def is_section_header_def)
  show ?thesis
    unfolding eq section_headers_append_nl t e section_headers_overview_sections[OF assms] by simp
qed

lemma is_digit_not_newline: "is_digit c \<Longrightarrow> c \<noteq> CHR 0x0A"
  by (auto simp add: is_digit_def)

lemma digits_no_newline: "list_all is_digit s \<Longrightarrow> CHR 0x0A \<notin> set s"
  by (auto simp add: list_all_iff dest: is_digit_not_newline)

lemma strftime_header_format:
  "strftime ''%Y-%m-%d %H:%M:%S'' t =
     show_nat (tm_year t) @ ''-'' @ zfill 2 (show_nat (tm_mon t)) @ ''-''
       @ zfill 2 (show_nat (tm_mday t)) @ '' '' @ zfill 2 (show_nat (tm_hour t)) @ '':''
       @ zfill 2 (show_nat (tm_min t)) @ '':'' @ zfill 2 (show_nat (tm_sec t))"
  by (simp add: directive_def)

lemma strftime_header_no_newline: "CHR 0x0A \<notin> set (strftime ''%Y-%m-%d %H:%M:%S'' t)"
  unfolding strftime_header_format
  using digits_no_newline[OF show_nat_digits] digits_no_newline[OF zfill2_digits]
  by simp

lemma section_headers_report_header:
  assumes "CHR 0x0A \<notin> set pc_name"
  shows "section_headers (report_header now pc_name @ rest) = section_headers rest"
proof -
  define ts where "ts = strftime ''%Y-%m-%d %H:%M:%S'' now"
  have ts: "CHR 0x0A \<notin> set ts"
    unfolding ts_def by (rule strftime_header_no_newline)
  have t: "section_headers ''# Hardware Report'' = []"
    by (subst section_headers_single) (simp_all add: is_section_header_def)
  have e: "section_headers [] = []"
    by (simp add: section_headers_def is_section_header_def)
  have g: "section_headers (''**Generated on:** '' @ ts) = []"
    using ts by (subst section_headers_single) (simp_all add: is_section_header_def)
  have p: "section_headers (''**PC Name:** '' @ pc_name) = []"
    using assms by (subst section_headers_single) (simp_all add: is_section_header_def)
  show ?thesis
  proof (cases "pc_name = []")
    case True
    have eq: "report_header now pc_name @ rest
        = ''# Hardware Report'' @ CHR 0x0A # ([] @ CHR 0x0A # ((''**Generated on:** '' @ ts) @ CHR 0x0A # rest))"
      using True by (simp add: report_header_def ts_def)
    show ?thesis unfolding eq section_headers_append_nl t e g by simp
  next
    case False
    have eq: "report_header now pc_name @ rest
        = ''# Hardware Report'' @ CHR 0x0A # ([] @ CHR 0x0A # ((''**Generated on:** '' @ ts) @ CHR 0x0A
            # ((''**PC Name:** '' @ pc_name) @ CHR 0x0A # rest)))"
      using False by (simp add: report_header_def ts_def)
    show ?thesis unfolding eq section_headers_append_nl t e g p by simp
  qed
qed

lemma capitalize_component_keys:
  "capitalize ''system'' = ''System''" "capitalize ''cpu'' = ''Cpu''" "capitalize ''gpu'' = ''Gpu''"
  "capitalize ''ram'' = ''Ram''" "capitalize ''disk'' = ''Disk''"
  "capitalize ''network'' = ''Network''" "capitalize ''motherboard'' = ''Motherboard''"
  "capitalize ''bios'' = ''Bios''"
  by (simp_all add: upper_char_def lower_char_def ascii_lowercase_def ascii_uppercase_def)

lemma selected_sections_headers:
  assumes "list_all (\<lambda>b. section_headers b = []) [d1, d2, d3, d4, d5, d6, d7, d8]"
  defines "body \<equiv> map_of [(''system'', d1), (''cpu'', d2), (''gpu'', d3), (''ram'', d4),
                          (''disk'', d5), (''network'', d6), (''motherboard'', d7), (''bios'', d8)]"
  shows "list_all (\<lambda>sec. CHR 0x0A \<notin> set (fst sec) \<and> section_headers (snd sec) = [])
           (selected_sections sel body)"
    and "map fst (selected_sections sel body)
         = map capitalize (filter (\<lambda>name. name \<in> set component_keys) (map fst (filter snd sel)))"
proof -
  have one: "body name = Some d \<Longrightarrow>
      CHR 0x0A \<notin> set (capitalize name) \<and> section_headers d = [] \<and> name \<in> set component_keys" for name d
    using assms(1) unfolding body_def component_keys_def
    by (auto simp del: capitalize.simps simp add: capitalize_component_keys split: if_splits)
  have none: "body name = None \<Longrightarrow> name \<notin> set component_keys" for name
    unfolding body_def component_keys_def by (auto split: if_splits)
  have some: "name \<in> set component_keys \<Longrightarrow> \<exists>d. body name = Some d" for name
    unfolding body_def component_keys_def by auto
  show "list_all (\<lambda>sec. CHR 0x0A \<notin> set (fst sec) \<and> section_headers (snd sec) = [])
           (selected_sections sel body)"
    unfolding selected_sections_def
    by (induction sel) (auto split: option.splits dest: one)
  show "map fst (selected_sections sel body)
         = map capitalize (filter (\<lambda>name. name \<in> set component_keys) (map fst (filter snd sel)))"
    unfolding selected_sections_def
    by (induction sel) (auto split: option.splits dest: one none some)
qed

lemma compile_success:
  assumes "map class_name [system, cpu, gpu, ram, disk, network, motherboard, bios] = hardware_classes"
    and "map get_summary [system, cpu, gpu, ram, disk, network, motherboard, bios]
         = map Inr [s1, s2, s3, s4, s5, s6, s7, s8]"
    and "map get_details [system, cpu, gpu, ram, disk, network, motherboard, bios]
         = map Inr [d1, d2, d3, d4, d5, d6, d7, d8]"
  shows "fst (compile_report_content self now system cpu gpu ram disk network motherboard bios pc_name lg)
         = Inr (report_header now pc_name
                @ (if all_components_selection self
                   then overview_text [(''SYSTEM'', s1), (''CPU'', s2), (''GPU'', s3), (''RAM'', s4),
            (''DISK'', s5), (''NETWORK'', s6), (''MOTHERBOARD'', s7), (''BIOS'', s8)]
                   else [])
                @ (if detailed_report_option self
                   then details_text [(''SYSTEM'', d1), (''CPU'', d2), (''GPU'', d3), (''RAM'', d4),
            (''DISK'', d5), (''NETWORK'', d6), (''MOTHERBOARD'', d7), (''BIOS'', d8)]
                   else if map fst (filter snd (components self)) = []
                   then ''\<newline>No components selected.''
                   else details_text (selected_sections (components self)
                          (map_of [(''system'', d1), (''cpu'', d2), (''gpu'', d3), (''ram'', d4),
            (''disk'', d5), (''network'', d6), (''motherboard'', d7), (''bios'', d8)]))))"
proof -
  have ov: "generate_overview [system, cpu, gpu, ram, disk, network, motherboard, bios]
      = Inr (overview_text [(''SYSTEM'', s1), (''CPU'', s2), (''GPU'', s3), (''RAM'', s4),
            (''DISK'', s5), (''NETWORK'', s6), (''MOTHERBOARD'', s7), (''BIOS'', s8)])"
    using generate_overview_sections[OF assms(2)] assms(1)
    by (simp add: hardware_classes_def upper_class_names)
  have fd: "generate_full_details [system, cpu, gpu, ram, disk, network, motherboard, bios]
      = Inr (details_text [(''SYSTEM'', d1), (''CPU'', d2), (''GPU'', d3), (''RAM'', d4),
            (''DISK'', d5), (''NETWORK'', d6), (''MOTHERBOARD'', d7), (''BIOS'', d8)])"
    using generate_full_details_sections[OF assms(3)] assms(1)
    by (simp add: hardware_classes_def upper_class_names)
  have sd: "fst (generate_selected_component_details self system cpu gpu ram disk network motherboard bios lg')
      = Inr (details_text (selected_sections (components self)
                          (map_of [(''system'', d1), (''cpu'', d2), (''gpu'', d3), (''ram'', d4),
            (''disk'', d5), (''network'', d6), (''motherboard'', d7), (''bios'', d8)])))"
    for lg'
  proof -
    define body where "body = map_of [(''system'', d1), (''cpu'', d2), (''gpu'', d3), (''ram'', d4),
            (''disk'', d5), (''network'', d6), (''motherboard'', d7), (''bios'', d8)]"
    have rel: "rel_option (\<lambda>c d. get_details c = Inr d)
           (components_map system cpu gpu ram disk network motherboard bios n) (body n)" for n
      unfolding body_def by (rule components_map_bodies[OF assms(3)])
    show ?thesis
      unfolding generate_selected_component_details_def body_def[symmetric]
      using selected_loop_sections[of "components_map system cpu gpu ram disk network motherboard bios" body
              "[]" "components self" lg', OF rel]
      by simp
  qed
  show ?thesis
    by (simp add: compile_report_content_def report_header_def Let_def ov fd
          fst_selected_case[OF sd])
qed


lemma takeWhile_digits: "x \<in> set (takeWhile is_digit s) \<Longrightarrow> is_digit x"
  by (rule set_takeWhileD[THEN conjunct2])

lemma point_not_digit: "\<not> is_digit (CHR ''.'')"
  by (simp add: is_digit_def)


lemma has_decimal_Cons: "has_decimal cs \<Longrightarrow> has_decimal (c # cs)"
  by (cases cs rule: has_decimal.cases) auto

lemma has_decimal_digits_point:
  assumes "d1 \<noteq> []" and "list_all is_digit d1" and "is_digit x"
  shows "has_decimal (d1 @ CHR ''.'' # x # t)"
  using assms(1,2)
proof (induction d1)
  case Nil
  then show ?case by simp
next
  case (Cons a d1)
  show ?case
  proof (cases d1)
    case Nil
    then show ?thesis using Cons.prems assms(3) by simp
  next
    case (Cons b d1')
    then have "has_decimal (d1 @ CHR ''.'' # x # t)"
      using Cons.IH Cons.prems by simp
    then show ?thesis using has_decimal_Cons by simp
  qed
qed

lemma match_decimal_has_decimal:
  assumes "match_decimal s = Some (m, rest)"
  shows "has_decimal s"
proof -
  from assms obtain r2 where d1: "takeWhile is_digit s \<noteq> []"
    and r1: "dropWhile is_digit s = CHR ''.'' # r2"
    and d2: "takeWhile is_digit r2 \<noteq> []"
    by (auto simp add: match_decimal_def Let_def split: if_splits list.splits)
  from d2 obtain x t where r2: "r2 = x # t" and x: "is_digit x"
    by (cases r2) (auto split: if_splits)
  have "s = takeWhile is_digit s @ dropWhile is_digit s" by simp
  then have s: "s = takeWhile is_digit s @ CHR ''.'' # x # t"
    by (simp add: r1 r2)
  have "has_decimal (takeWhile is_digit s @ CHR ''.'' # x # t)"
    using d1 x by (intro has_decimal_digits_point) (simp_all add: list_all_iff takeWhile_digits)
  with s show ?thesis by simp
qed

lemma findall_decimal_empty:
  "\<not> has_decimal s \<Longrightarrow> findall_decimal s = []"
proof (induction s)
  case Nil
  then show ?case by simp
next
  case (Cons c cs)
  from Cons.prems have "match_decimal (c # cs) = None"
    using match_decimal_has_decimal by (cases "match_decimal (c # cs)") auto
  moreover from Cons.prems have "\<not> has_decimal cs"
    using has_decimal_Cons by blast
  ultimately show ?case using Cons.IH by simp
qed

lemma digit_point_digit_matches:
  assumes "is_digit a" and "is_digit c"
  shows "match_decimal (a # CHR ''.'' # c # rest) \<noteq> None"
  using assms point_not_digit by (simp add: match_decimal_def Let_def)

lemma findall_decimal_nonempty:
  "has_decimal s \<Longrightarrow> findall_decimal s \<noteq> []"
proof (induction s rule: has_decimal.induct)
  case (1 a b c rest)
  show ?case
  proof (cases "match_decimal (a # b # c # rest)")
    case (Some p)
    then show ?thesis by (cases p) simp
  next
    case None
    with digit_point_digit_matches[of a c rest] have "\<not> (is_digit a \<and> b = CHR ''.'' \<and> is_digit c)"
      by auto
    with "1.prems" have "has_decimal (b # c # rest)" by simp
    with "1.IH" have "findall_decimal (b # c # rest) \<noteq> []" by simp
    with None show ?thesis by simp
  qed
qed simp_all

lemma findall_decimal_empty_iff: "findall_decimal s = [] \<longleftrightarrow> \<not> has_decimal s"
  using findall_decimal_empty findall_decimal_nonempty by blast






section \<open>The claims\<close>

subsection \<open>C5: the overview of a report that includes all components\<close>

text \<open>
  C5. When \<open>all_components_selection\<close> is set and the eight collectors, instances of
  the classes of \<open>hardware_classes\<close> in that order, all return their summaries and
  details, the compiled report is the header followed by the overview, which holds
  exactly eight sections in the order SYSTEM, CPU, GPU, RAM, DISK, NETWORK, MOTHERBOARD,
  BIOS, each closed by the horizontal rule \<open>---\<close>; what follows the overview is the
  detail part (all details, the selected details, or the notice), which holds no
  overview section.
\<close>

theorem include_all_eight_overview_sections:
  assumes "all_components_selection self"
    and "map class_name [system, cpu, gpu, ram, disk, network, motherboard, bios] = hardware_classes"
    and "map get_summary [system, cpu, gpu, ram, disk, network, motherboard, bios]
         = map Inr [s1, s2, s3, s4, s5, s6, s7, s8]"
    and "map get_details [system, cpu, gpu, ram, disk, network, motherboard, bios]
         = map Inr [d1, d2, d3, d4, d5, d6, d7, d8]"
  shows "fst (compile_report_content self now system cpu gpu ram disk network motherboard bios pc_name lg)
         = Inr (report_header now pc_name
                @ overview_text [(''SYSTEM'', s1), (''CPU'', s2), (''GPU'', s3), (''RAM'', s4),
                                 (''DISK'', s5), (''NETWORK'', s6), (''MOTHERBOARD'', s7), (''BIOS'', s8)]
                @ (if detailed_report_option self
                   then details_text [(''SYSTEM'', d1), (''CPU'', d2), (''GPU'', d3), (''RAM'', d4),
                                 (''DISK'', d5), (''NETWORK'', d6), (''MOTHERBOARD'', d7), (''BIOS'', d8)]
                   else if map fst (filter snd (components self)) = []
                   then ''\<newline>No components selected.''
                   else details_text (selected_sections (components self)
                          (map_of [(''system'', d1), (''cpu'', d2), (''gpu'', d3), (''ram'', d4),
                                   (''disk'', d5), (''network'', d6), (''motherboard'', d7), (''bios'', d8)]))))"
  using compile_success[OF assms(2,3,4), of self now pc_name lg] assms(1)
  by simp

text \<open>
  An instance of C5: the cpu is also selected, so its details follow the overview.
\<close>

theorem include_all_eight_overview_sections_witness:
  "fst (compile_report_content
          \<lparr>components = [(''cpu'', True), (''ram'', False)],
             all_components_selection = True, detailed_report_option = False\<rparr>
          example_time
          (working_component ''System'' ''s1'' ''d1'') (working_component ''CPU'' ''s2'' ''d2'')
            (working_component ''GPU'' ''s3'' ''d3'') (working_component ''RAM'' ''s4'' ''d4'')
            (working_component ''Disk'' ''s5'' ''d5'') (working_component ''Network'' ''s6'' ''d6'')
            (working_component ''Motherboard'' ''s7'' ''d7'') (working_component ''BIOS'' ''s8'' ''d8'') [] [])
   = Inr (''# Hardware Report\<newline>\<newline>**Generated on:** 2024-03-09 07:05:00\<newline>''
            @ ''# **Hardware Overview**\<newline>\<newline>''
            @ ''## **SYSTEM Information**\<newline>s1\<newline>---\<newline>''
            @ ''## **CPU Information**\<newline>s2\<newline>---\<newline>''
            @ ''## **GPU Information**\<newline>s3\<newline>---\<newline>''
            @ ''## **RAM Information**\<newline>s4\<newline>---\<newline>''
            @ ''## **DISK Information**\<newline>s5\<newline>---\<newline>''
            @ ''## **NETWORK Information**\<newline>s6\<newline>---\<newline>''
            @ ''## **MOTHERBOARD Information**\<newline>s7\<newline>---\<newline>''
            @ ''## **BIOS Information**\<newline>s8\<newline>---\<newline>''
            @ ''\<newline>## Detailed Cpu Information\<newline>d2\<newline>---\<newline>'')"
  using include_all_eight_overview_sections[
      where system = "working_component ''System'' ''s1'' ''d1''"
        and cpu = "working_component ''CPU'' ''s2'' ''d2''"
        and gpu = "working_component ''GPU'' ''s3'' ''d3''"
        and ram = "working_component ''RAM'' ''s4'' ''d4''"
        and disk = "working_component ''Disk'' ''s5'' ''d5''"
        and network = "working_component ''Network'' ''s6'' ''d6''"
        and motherboard = "working_component ''Motherboard'' ''s7'' ''d7''"
        and bios = "working_component ''BIOS'' ''s8'' ''d8''"
        and ?s1.0 = "''s1''" and ?s2.0 = "''s2''" and ?s3.0 = "''s3''" and ?s4.0 = "''s4''"
        and ?s5.0 = "''s5''" and ?s6.0 = "''s6''" and ?s7.0 = "''s7''" and ?s8.0 = "''s8''"
        and ?d1.0 = "''d1''" and ?d2.0 = "''d2''" and ?d3.0 = "''d3''" and ?d4.0 = "''d4''"
        and ?d5.0 = "''d5''" and ?d6.0 = "''d6''" and ?d7.0 = "''d7''" and ?d8.0 = "''d8''"
        and self = "\<lparr>components = [(''cpu'', True), (''ram'', False)],
             all_components_selection = True, detailed_report_option = False\<rparr>"
        and now = example_time and pc_name = "[]" and lg = "[]"]
  by (simp del: strftime.simps
        add: report_header_def example_time_header
          working_component_def hardware_classes_def overview_text_def overview_section_def
          details_text_def detail_section_def selected_sections_def
          upper_char_def lower_char_def ascii_lowercase_def ascii_uppercase_def)

subsection \<open>C6: nothing selected\<close>

text \<open>
  C6. With every flag of the selection false, \<open>all_components_selection\<close> false and
  \<open>detailed_report_option\<close> false, the compiled report is the header followed, on a
  new line, by the literal \<open>No components selected.\<close> and nothing else. No collector
  is called, so the result does not depend on them.
\<close>

theorem no_selection_notice:
  assumes "list_all (\<lambda>(name, var). \<not> var) (components self)"
    and "\<not> all_components_selection self"
    and "\<not> detailed_report_option self"
  shows "fst (compile_report_content self now system cpu gpu ram disk network motherboard bios pc_name lg)
         = Inr (report_header now pc_name @ ''\<newline>No components selected.'')"
  using assms no_flag_selected[of "components self"]
  by (simp add: compile_report_content_def report_header_def Let_def)

text \<open>
  An instance of C6, with the selection variables as \<open>noctua.py\<close> creates them.
\<close>

theorem no_selection_notice_witness:
  "fst (compile_report_content
          \<lparr>components = initialize_hardware_selection_variables,
             all_components_selection = False, detailed_report_option = False\<rparr>
          example_time
          (working_component ''System'' ''s1'' ''d1'') (working_component ''CPU'' ''s2'' ''d2'')
            (working_component ''GPU'' ''s3'' ''d3'') (working_component ''RAM'' ''s4'' ''d4'')
            (working_component ''Disk'' ''s5'' ''d5'') (working_component ''Network'' ''s6'' ''d6'')
            (working_component ''Motherboard'' ''s7'' ''d7'') (working_component ''BIOS'' ''s8'' ''d8'') ''My PC'' [])
   = Inr (''# Hardware Report\<newline>\<newline>**Generated on:** 2024-03-09 07:05:00\<newline>**PC Name:** My PC\<newline>''
            @ ''\<newline>No components selected.'')"
  using no_selection_notice[of
      "\<lparr>components = initialize_hardware_selection_variables,
         all_components_selection = False, detailed_report_option = False\<rparr>"
      example_time _ _ _ _ _ _ _ _ "''My PC''" "[]"]
  by (simp del: strftime.simps
        add: initialize_hardware_selection_variables_def report_header_def example_time_header)

subsection \<open>C7: the notice does not depend on the overview\<close>

text \<open>
  C7. With every flag of the selection false and \<open>detailed_report_option\<close> false,
  the notice is emitted whatever \<open>all_components_selection\<close> is: without it the report
  is the header and the notice; with it (the summaries returning) the report holds the
  overview of all eight domains and then the notice.
\<close>

theorem notice_independent_of_include_all:
  assumes "list_all (\<lambda>(name, var). \<not> var) (components self)"
    and "\<not> detailed_report_option self"
    and "map class_name [system, cpu, gpu, ram, disk, network, motherboard, bios] = hardware_classes"
    and "map get_summary [system, cpu, gpu, ram, disk, network, motherboard, bios]
         = map Inr [s1, s2, s3, s4, s5, s6, s7, s8]"
  shows "fst (compile_report_content (self\<lparr>all_components_selection := False\<rparr>) now
               system cpu gpu ram disk network motherboard bios pc_name lg)
         = Inr (report_header now pc_name @ ''\<newline>No components selected.'')
       \<and> fst (compile_report_content (self\<lparr>all_components_selection := True\<rparr>) now
               system cpu gpu ram disk network motherboard bios pc_name lg)
         = Inr (report_header now pc_name
                @ overview_text [(''SYSTEM'', s1), (''CPU'', s2), (''GPU'', s3), (''RAM'', s4),
                                 (''DISK'', s5), (''NETWORK'', s6), (''MOTHERBOARD'', s7), (''BIOS'', s8)]
                @ ''\<newline>No components selected.'')"
proof -
  have ov: "generate_overview [system, cpu, gpu, ram, disk, network, motherboard, bios]
      = Inr (overview_text [(''SYSTEM'', s1), (''CPU'', s2), (''GPU'', s3), (''RAM'', s4),
                                 (''DISK'', s5), (''NETWORK'', s6), (''MOTHERBOARD'', s7), (''BIOS'', s8)])"
    using generate_overview_sections[OF assms(4)] assms(3)
    by (simp add: hardware_classes_def upper_class_names)
  show ?thesis
    using assms(1,2) no_flag_selected[of "components self"]
    by (simp add: compile_report_content_def report_header_def Let_def ov)
qed

text \<open>
  An instance of C7 with the overview.
\<close>

theorem notice_independent_of_include_all_witness:
  "fst (compile_report_content
          \<lparr>components = initialize_hardware_selection_variables,
             all_components_selection = True, detailed_report_option = False\<rparr>
          example_time
          (working_component ''System'' ''s1'' ''d1'') (working_component ''CPU'' ''s2'' ''d2'')
            (working_component ''GPU'' ''s3'' ''d3'') (working_component ''RAM'' ''s4'' ''d4'')
            (working_component ''Disk'' ''s5'' ''d5'') (working_component ''Network'' ''s6'' ''d6'')
            (working_component ''Motherboard'' ''s7'' ''d7'') (working_component ''BIOS'' ''s8'' ''d8'') [] [])
   = Inr (''# Hardware Report\<newline>\<newline>**Generated on:** 2024-03-09 07:05:00\<newline>''
            @ ''# **Hardware Overview**\<newline>\<newline>''
            @ ''## **SYSTEM Information**\<newline>s1\<newline>---\<newline>''
            @ ''## **CPU Information**\<newline>s2\<newline>---\<newline>''
            @ ''## **GPU Information**\<newline>s3\<newline>---\<newline>''
            @ ''## **RAM Information**\<newline>s4\<newline>---\<newline>''
            @ ''## **DISK Information**\<newline>s5\<newline>---\<newline>''
            @ ''## **NETWORK Information**\<newline>s6\<newline>---\<newline>''
            @ ''## **MOTHERBOARD Information**\<newline>s7\<newline>---\<newline>''
            @ ''## **BIOS Information**\<newline>s8\<newline>---\<newline>''
            @ ''\<newline>No components selected.'')"
  using notice_independent_of_include_all[
      where system = "working_component ''System'' ''s1'' ''d1''"
        and cpu = "working_component ''CPU'' ''s2'' ''d2''"
        and gpu = "working_component ''GPU'' ''s3'' ''d3''"
        and ram = "working_component ''RAM'' ''s4'' ''d4''"
        and disk = "working_component ''Disk'' ''s5'' ''d5''"
        and network = "working_component ''Network'' ''s6'' ''d6''"
        and motherboard = "working_component ''Motherboard'' ''s7'' ''d7''"
        and bios = "working_component ''BIOS'' ''s8'' ''d8''"
        and ?s1.0 = "''s1''" and ?s2.0 = "''s2''" and ?s3.0 = "''s3''" and ?s4.0 = "''s4''"
        and ?s5.0 = "''s5''" and ?s6.0 = "''s6''" and ?s7.0 = "''s7''" and ?s8.0 = "''s8''"
        and self = "\<lparr>components = initialize_hardware_selection_variables,
             all_components_selection = True, detailed_report_option = False\<rparr>"
        and now = example_time and pc_name = "[]" and lg = "[]"]
  by (simp del: strftime.simps
        add: initialize_hardware_selection_variables_def report_header_def example_time_header
          working_component_def hardware_classes_def overview_text_def overview_section_def)

subsection \<open>C8: detailed mode\<close>

text \<open>
  C8. With \<open>detailed_report_option\<close> set, the details of all eight collectors are
  appended, in the order of \<open>hardware_classes\<close>, whatever the selection map holds: the
  selection does not occur in the result.
\<close>

theorem detailed_appends_all_details:
  assumes "detailed_report_option self"
    and "map class_name [system, cpu, gpu, ram, disk, network, motherboard, bios] = hardware_classes"
    and "map get_details [system, cpu, gpu, ram, disk, network, motherboard, bios]
         = map Inr [d1, d2, d3, d4, d5, d6, d7, d8]"
    and "all_components_selection self \<longrightarrow>
         map get_summary [system, cpu, gpu, ram, disk, network, motherboard, bios]
         = map Inr [s1, s2, s3, s4, s5, s6, s7, s8]"
  shows "fst (compile_report_content self now system cpu gpu ram disk network motherboard bios pc_name lg)
         = Inr (report_header now pc_name
                @ (if all_components_selection self
                   then overview_text [(''SYSTEM'', s1), (''CPU'', s2), (''GPU'', s3), (''RAM'', s4),
                                 (''DISK'', s5), (''NETWORK'', s6), (''MOTHERBOARD'', s7), (''BIOS'', s8)]
                   else [])
                @ details_text [(''SYSTEM'', d1), (''CPU'', d2), (''GPU'', d3), (''RAM'', d4),
                                 (''DISK'', d5), (''NETWORK'', d6), (''MOTHERBOARD'', d7), (''BIOS'', d8)])"
proof -
  have fd: "generate_full_details [system, cpu, gpu, ram, disk, network, motherboard, bios]
      = Inr (details_text [(''SYSTEM'', d1), (''CPU'', d2), (''GPU'', d3), (''RAM'', d4),
                                 (''DISK'', d5), (''NETWORK'', d6), (''MOTHERBOARD'', d7), (''BIOS'', d8)])"
    using generate_full_details_sections[OF assms(3)] assms(2)
    by (simp add: hardware_classes_def upper_class_names)
  show ?thesis
  proof (cases "all_components_selection self")
    case False
    then show ?thesis using assms(1)
      by (simp add: compile_report_content_def report_header_def Let_def fd)
  next
    case True
    with assms(4) have "map get_summary [system, cpu, gpu, ram, disk, network, motherboard, bios]
         = map Inr [s1, s2, s3, s4, s5, s6, s7, s8]" by simp
    from generate_overview_sections[OF this] assms(2)
    have ov: "generate_overview [system, cpu, gpu, ram, disk, network, motherboard, bios]
      = Inr (overview_text [(''SYSTEM'', s1), (''CPU'', s2), (''GPU'', s3), (''RAM'', s4),
                                 (''DISK'', s5), (''NETWORK'', s6), (''MOTHERBOARD'', s7), (''BIOS'', s8)])"
      by (simp add: hardware_classes_def upper_class_names)
    show ?thesis using True assms(1)
      by (simp add: compile_report_content_def report_header_def Let_def fd ov)
  qed
qed

text \<open>
  An instance of C8: only the cpu is selected, and all eight details are appended.
\<close>

theorem detailed_appends_all_details_witness:
  "fst (compile_report_content
          \<lparr>components = [(''cpu'', True), (''ram'', False)],
             all_components_selection = False, detailed_report_option = True\<rparr>
          example_time
          (working_component ''System'' ''s1'' ''d1'') (working_component ''CPU'' ''s2'' ''d2'')
            (working_component ''GPU'' ''s3'' ''d3'') (working_component ''RAM'' ''s4'' ''d4'')
            (working_component ''Disk'' ''s5'' ''d5'') (working_component ''Network'' ''s6'' ''d6'')
            (working_component ''Motherboard'' ''s7'' ''d7'') (working_component ''BIOS'' ''s8'' ''d8'') [] [])
   = Inr (''# Hardware Report\<newline>\<newline>**Generated on:** 2024-03-09 07:05:00\<newline>''
            @ ''\<newline>## Detailed SYSTEM Information\<newline>d1\<newline>---\<newline>''
            @ ''\<newline>## Detailed CPU Information\<newline>d2\<newline>---\<newline>''
            @ ''\<newline>## Detailed GPU Information\<newline>d3\<newline>---\<newline>''
            @ ''\<newline>## Detailed RAM Information\<newline>d4\<newline>---\<newline>''
            @ ''\<newline>## Detailed DISK Information\<newline>d5\<newline>---\<newline>''
            @ ''\<newline>## Detailed NETWORK Information\<newline>d6\<newline>---\<newline>''
            @ ''\<newline>## Detailed MOTHERBOARD Information\<newline>d7\<newline>---\<newline>''
            @ ''\<newline>## Detailed BIOS Information\<newline>d8\<newline>---\<newline>'')"
  using detailed_appends_all_details[
      where system = "working_component ''System'' ''s1'' ''d1''"
        and cpu = "working_component ''CPU'' ''s2'' ''d2''"
        and gpu = "working_component ''GPU'' ''s3'' ''d3''"
        and ram = "working_component ''RAM'' ''s4'' ''d4''"
        and disk = "working_component ''Disk'' ''s5'' ''d5''"
        and network = "working_component ''Network'' ''s6'' ''d6''"
        and motherboard = "working_component ''Motherboard'' ''s7'' ''d7''"
        and bios = "working_component ''BIOS'' ''s8'' ''d8''"
        and ?s1.0 = "''s1''" and ?s2.0 = "''s2''" and ?s3.0 = "''s3''" and ?s4.0 = "''s4''"
        and ?s5.0 = "''s5''" and ?s6.0 = "''s6''" and ?s7.0 = "''s7''" and ?s8.0 = "''s8''"
        and ?d1.0 = "''d1''" and ?d2.0 = "''d2''" and ?d3.0 = "''d3''" and ?d4.0 = "''d4''"
        and ?d5.0 = "''d5''" and ?d6.0 = "''d6''" and ?d7.0 = "''d7''" and ?d8.0 = "''d8''"
        and self = "\<lparr>components = [(''cpu'', True), (''ram'', False)],
             all_components_selection = False, detailed_report_option = True\<rparr>"
        and now = example_time and pc_name = "[]" and lg = "[]"]
  by (simp del: strftime.simps
        add: report_header_def example_time_header
          working_component_def hardware_classes_def details_text_def detail_section_def)

subsection \<open>C10: the file name of the report\<close>

text \<open>
  C10. The path is \<open>result\<close>, the separator, and the file name
  \<open>hardware_report_<segment>_<timestamp>.md\<close>: the segment is the machine name with
  every space replaced by an underscore (\<open>My PC\<close> gives \<open>My_PC\<close>), or \<open>unnamed_pc\<close>
  for the empty name; the timestamp has the shape \<open>yyyyMMdd_HHmmss\<close>.
\<close>

theorem report_file_name_pattern:
  assumes "valid_time now" and "sep = CHR ''/'' \<or> sep = CHR 0x5C"
  shows "build_report_file_path sep now pc_name =
           ''result'' @ [sep] @ ''hardware_report_''
             @ (if pc_name = [] then ''unnamed_pc'' else replace_space pc_name)
             @ ''_'' @ strftime ''%Y%m%d_%H%M%S'' now @ ''.md''
       \<and> timestamp_shape (strftime ''%Y%m%d_%H%M%S'' now)
       \<and> replace_space ''My PC'' = ''My_PC''
       \<and> length (replace_space pc_name) = length pc_name
       \<and> (\<forall>i < length pc_name.
             replace_space pc_name ! i = (if pc_name ! i = CHR '' '' then CHR ''_'' else pc_name ! i))"
  using assms strftime_file_shape[OF assms(1)]
  by (auto simp add: build_report_file_path_def os_path_join_def replace_space_def Let_def)

text \<open>
  An instance of C10 on POSIX.
\<close>

theorem report_file_name_pattern_witness:
  "valid_time example_time
   \<and> build_report_file_path (CHR ''/'') example_time ''My PC''
       = ''result/hardware_report_My_PC_20240309_070500.md''
   \<and> build_report_file_path (CHR ''/'') example_time []
       = ''result/hardware_report_unnamed_pc_20240309_070500.md''
   \<and> timestamp_shape ''20240309_070500''"
proof -
  have v: "valid_time example_time"
    by (simp add: valid_time_def example_time_def)
  have s: "CHR ''/'' = CHR ''/'' \<or> CHR ''/'' = CHR 0x5C"
    by simp
  have shape: "timestamp_shape ''20240309_070500''"
    using report_file_name_pattern[OF v s, of "[]"]
    by (simp del: strftime.simps add: example_time_file)
  show ?thesis
    using v shape report_file_name_pattern[OF v s, of "''My PC''"]
      report_file_name_pattern[OF v s, of "[]"]
    by (simp del: strftime.simps add: example_time_file replace_space_def)
qed

subsection \<open>C9: the lookup tables\<close>

text \<open>
  C9. The form-factor code, the memory-type code and each BIOS characteristic code are
  looked up in fixed tables: a code of the table gives its string; a code outside it
  (below 0, above 14, 25 and 35, and the missing memory type 23; for instance 99) gives
  \<open>Unknown\<close>. The characteristics of a list are looked up one by one and joined by a
  comma and a space, so \<open>[5, 7, 35]\<close> gives
  \<open>PCI is supported, Plug and Play is supported, UEFI is supported\<close>.
\<close>

theorem hardware_code_tables:
  "((code, name) \<in> set form_factors \<longrightarrow> get_form_factor code = name)
   \<and> (\<not> (0 \<le> code \<and> code \<le> 14) \<longrightarrow> get_form_factor code = ''Unknown'')
   \<and> ((code, name) \<in> set memory_types \<longrightarrow> get_memory_type code = name)
   \<and> (\<not> (0 \<le> code \<and> code \<le> 25 \<and> code \<noteq> 23) \<longrightarrow> get_memory_type code = ''Unknown'')
   \<and> ((code, name) \<in> set characteristic_descriptions \<longrightarrow> get_bios_characteristics [code] = name)
   \<and> (\<not> (0 \<le> code \<and> code \<le> 35) \<longrightarrow> get_bios_characteristics [code] = ''Unknown'')
   \<and> get_bios_characteristics codes
       = join '', '' (map (\<lambda>c. if 0 \<le> c \<and> c \<le> 35 then the (map_of characteristic_descriptions c)
                               else ''Unknown'') codes)
   \<and> get_bios_characteristics [5, 7, 35]
       = ''PCI is supported, Plug and Play is supported, UEFI is supported''"
proof -
  have ff: "(code, name) \<in> set form_factors \<Longrightarrow> get_form_factor code = name"
    unfolding get_form_factor_def by (rule dict_get_defined[OF form_factors_keys])
  have ffu: "\<not> (0 \<le> code \<and> code \<le> 14) \<Longrightarrow> get_form_factor code = ''Unknown''"
    unfolding get_form_factor_def
    by (rule dict_get_undefined) (simp add: form_factors_domain)
  have mt: "(code, name) \<in> set memory_types \<Longrightarrow> get_memory_type code = name"
    unfolding get_memory_type_def by (rule dict_get_defined[OF memory_types_keys])
  have mtu: "\<not> (0 \<le> code \<and> code \<le> 25 \<and> code \<noteq> 23) \<Longrightarrow> get_memory_type code = ''Unknown''"
    unfolding get_memory_type_def
    by (rule dict_get_undefined) (auto simp add: memory_types_domain)
  have bc: "(code, name) \<in> set characteristic_descriptions \<Longrightarrow> get_bios_characteristics [code] = name"
    unfolding get_bios_characteristics_def
    by (simp add: dict_get_defined[OF characteristic_descriptions_keys])
  have bcu: "\<not> (0 \<le> code \<and> code \<le> 35) \<Longrightarrow> get_bios_characteristics [code] = ''Unknown''"
    unfolding get_bios_characteristics_def
    by (simp add: dict_get_undefined characteristic_descriptions_domain)
  have each: "dict_get characteristic_descriptions c ''Unknown''
      = (if 0 \<le> c \<and> c \<le> 35 then the (map_of characteristic_descriptions c) else ''Unknown'')" for c
  proof (cases "0 \<le> c \<and> c \<le> 35")
    case True
    then have "c \<in> fst ` set characteristic_descriptions"
      by (simp add: characteristic_descriptions_domain)
    then obtain v where "map_of characteristic_descriptions c = Some v"
      by (metis map_of_eq_None_iff not_Some_eq)
    then show ?thesis using True by (simp add: dict_get_def)
  next
    case False
    then have "c \<notin> fst ` set characteristic_descriptions"
      by (simp add: characteristic_descriptions_domain)
    then have "dict_get characteristic_descriptions c ''Unknown'' = ''Unknown''"
      by (rule dict_get_undefined)
    then show ?thesis using False by auto
  qed
  have all: "get_bios_characteristics codes
       = join '', '' (map (\<lambda>c. if 0 \<le> c \<and> c \<le> 35 then the (map_of characteristic_descriptions c)
                               else ''Unknown'') codes)"
    unfolding get_bios_characteristics_def by (simp only: each)
  have ex: "get_bios_characteristics [5, 7, 35]
       = ''PCI is supported, Plug and Play is supported, UEFI is supported''"
    by (simp add: get_bios_characteristics_def dict_get_def characteristic_descriptions_def)
  show ?thesis using ff ffu mt mtu bc bcu all ex by blast
qed

text \<open>Instances of C9: defined codes, the code 99, and the gap at 23.\<close>

theorem hardware_code_tables_witness:
  "get_form_factor 8 = ''DIMM'' \<and> get_form_factor 99 = ''Unknown''
   \<and> get_memory_type 24 = ''DDR3'' \<and> get_memory_type 99 = ''Unknown''
   \<and> get_memory_type 23 = ''Unknown''
   \<and> get_bios_characteristics [35] = ''UEFI is supported''
   \<and> get_bios_characteristics [99] = ''Unknown''
   \<and> get_bios_characteristics [5, 99]  = ''PCI is supported, Unknown''"
proof -
  have a: "get_form_factor 8 = ''DIMM''"
    using hardware_code_tables[of 8 "''DIMM''" "[]"] by (simp add: form_factors_def)
  have b: "get_memory_type 24 = ''DDR3''"
    using hardware_code_tables[of 24 "''DDR3''" "[]"] by (simp add: memory_types_def)
  have c: "get_bios_characteristics [35] = ''UEFI is supported''"
    using hardware_code_tables[of 35 "''UEFI is supported''" "[]"]
    by (simp add: characteristic_descriptions_def)
  have d: "get_form_factor 99 = ''Unknown''" "get_memory_type 99 = ''Unknown''"
    "get_bios_characteristics [99] = ''Unknown''"
    using hardware_code_tables[of 99 "[]" "[]"] by simp_all
  have e: "get_memory_type 23 = ''Unknown''"
    using hardware_code_tables[of 23 "[]" "[]"] by simp
  have f: "get_bios_characteristics [5, 99]  = ''PCI is supported, Unknown''"
    using hardware_code_tables[of 0 "[]" "[5, 99]"]
    by (simp add: characteristic_descriptions_def)
  show ?thesis using a b c d e f by simp
qed

subsection \<open>C4: the section headers\<close>

text \<open>
  C4, as amended. In a compiled report whose collectors return texts without header
  lines, the section headers are, in order: for the overview, one line
  \<open>## **<CLASS> Information**\<close> per collector, the class name in upper case between
  bold markers; then in detailed mode one line \<open>## Detailed <CLASS> Information\<close> per
  collector, the class name in upper case; otherwise one line
  \<open>## Detailed <Key> Information\<close> per selected key of \<open>components_map\<close>, the key
  capitalised (\<open>Cpu\<close>, \<open>System\<close>).
\<close>

theorem section_header_naming:
  assumes "map class_name [system, cpu, gpu, ram, disk, network, motherboard, bios] = hardware_classes"
    and "map get_summary [system, cpu, gpu, ram, disk, network, motherboard, bios]
         = map Inr [s1, s2, s3, s4, s5, s6, s7, s8]"
    and "map get_details [system, cpu, gpu, ram, disk, network, motherboard, bios]
         = map Inr [d1, d2, d3, d4, d5, d6, d7, d8]"
    and "list_all (\<lambda>b. section_headers b = []) [s1, s2, s3, s4, s5, s6, s7, s8]"
    and "list_all (\<lambda>b. section_headers b = []) [d1, d2, d3, d4, d5, d6, d7, d8]"
    and "CHR 0x0A \<notin> set pc_name"
  shows "case fst (compile_report_content self now system cpu gpu ram disk network motherboard bios
                     pc_name lg) of
           Inl e \<Rightarrow> False
         | Inr content \<Rightarrow>
             section_headers content =
               (if all_components_selection self then
                  [''## **SYSTEM Information**'', ''## **CPU Information**'', ''## **GPU Information**'',
             ''## **RAM Information**'', ''## **DISK Information**'', ''## **NETWORK Information**'',
             ''## **MOTHERBOARD Information**'', ''## **BIOS Information**'']
                else [])
               @ (if detailed_report_option self then
                    [''## Detailed SYSTEM Information'', ''## Detailed CPU Information'',
             ''## Detailed GPU Information'', ''## Detailed RAM Information'',
             ''## Detailed DISK Information'', ''## Detailed NETWORK Information'',
             ''## Detailed MOTHERBOARD Information'', ''## Detailed BIOS Information'']
                  else map (\<lambda>name. ''## Detailed '' @ capitalize name @ '' Information'')
                         (filter (\<lambda>name. name \<in> set component_keys)
                            (map fst (filter snd (components self)))))"
proof -
  define body where "body = map_of [(''system'', d1), (''cpu'', d2), (''gpu'', d3), (''ram'', d4),
            (''disk'', d5), (''network'', d6), (''motherboard'', d7), (''bios'', d8)]"
  have s8: "list_all (\<lambda>sec. CHR 0x0A \<notin> set (fst sec) \<and> section_headers (snd sec) = [])
      [(''SYSTEM'', s1), (''CPU'', s2), (''GPU'', s3), (''RAM'', s4),
            (''DISK'', s5), (''NETWORK'', s6), (''MOTHERBOARD'', s7), (''BIOS'', s8)]"
    using assms(4) by simp
  have d8: "list_all (\<lambda>sec. CHR 0x0A \<notin> set (fst sec) \<and> section_headers (snd sec) = [])
      [(''SYSTEM'', d1), (''CPU'', d2), (''GPU'', d3), (''RAM'', d4),
            (''DISK'', d5), (''NETWORK'', d6), (''MOTHERBOARD'', d7), (''BIOS'', d8)]"
    using assms(5) by simp
  have e: "section_headers [] = []"
    by (simp add: section_headers_def is_section_header_def)
  have notice: "section_headers ''\<newline>No components selected.'' = []"
    by (simp add: section_headers_def is_section_header_def)
  have sel: "section_headers (details_text (selected_sections (components self) body))
      = map (\<lambda>name. ''## Detailed '' @ capitalize name @ '' Information'')
                         (filter (\<lambda>name. name \<in> set component_keys)
                            (map fst (filter snd (components self))))"
  proof -
    have "section_headers (details_text (selected_sections (components self) body) @ [])
      = map (\<lambda>sec. ''## Detailed '' @ fst sec @ '' Information'') (selected_sections (components self) body)
        @ section_headers []"
      unfolding body_def
      by (rule section_headers_detail_sections[OF selected_sections_headers(1)[OF assms(5)]])
    also have "map (\<lambda>sec. ''## Detailed '' @ fst sec @ '' Information'') (selected_sections (components self) body)
      = map (\<lambda>name. ''## Detailed '' @ name @ '' Information'') (map fst (selected_sections (components self) body))"
      by simp
    also have "map fst (selected_sections (components self) body)
      = map capitalize (filter (\<lambda>name. name \<in> set component_keys) (map fst (filter snd (components self))))"
      unfolding body_def by (rule selected_sections_headers(2)[OF assms(5)])
    finally show ?thesis by (simp add: e comp_def)
  qed
  have none: "map fst (filter snd (components self)) = [] \<Longrightarrow>
      map (\<lambda>name. ''## Detailed '' @ capitalize name @ '' Information'')
                         (filter (\<lambda>name. name \<in> set component_keys)
                            (map fst (filter snd (components self)))) = []"
    by simp
  define part where "part =
      (if detailed_report_option self
                   then details_text [(''SYSTEM'', d1), (''CPU'', d2), (''GPU'', d3), (''RAM'', d4),
            (''DISK'', d5), (''NETWORK'', d6), (''MOTHERBOARD'', d7), (''BIOS'', d8)]
                   else if map fst (filter snd (components self)) = []
                   then ''\<newline>No components selected.''
                   else details_text (selected_sections (components self) body))"
  define part_headers where "part_headers =
      (if detailed_report_option self then
                    [''## Detailed SYSTEM Information'', ''## Detailed CPU Information'',
             ''## Detailed GPU Information'', ''## Detailed RAM Information'',
             ''## Detailed DISK Information'', ''## Detailed NETWORK Information'',
             ''## Detailed MOTHERBOARD Information'', ''## Detailed BIOS Information'']
                  else map (\<lambda>name. ''## Detailed '' @ capitalize name @ '' Information'')
                         (filter (\<lambda>name. name \<in> set component_keys)
                            (map fst (filter snd (components self)))))"
  have part: "section_headers part = part_headers"
  proof (cases "detailed_report_option self")
    case True
    then show ?thesis
      using section_headers_detail_sections[OF d8, of "[]"]
      by (simp add: part_def part_headers_def e)
  next
    case False
    show ?thesis
    proof (cases "map fst (filter snd (components self)) = []")
      case True
      then show ?thesis
        using False notice none by (simp add: part_def part_headers_def del: filter_map)
    next
      case nonempty: False
      then show ?thesis
        using False sel by (simp add: part_def part_headers_def del: filter_map)
    qed
  qed
  have content: "fst (compile_report_content self now system cpu gpu ram disk network motherboard bios
                     pc_name lg)
      = Inr (report_header now pc_name
              @ (if all_components_selection self then overview_text [(''SYSTEM'', s1), (''CPU'', s2), (''GPU'', s3), (''RAM'', s4),
            (''DISK'', s5), (''NETWORK'', s6), (''MOTHERBOARD'', s7), (''BIOS'', s8)] else [])
              @ part)"
    unfolding compile_success[OF assms(1,2,3)] body_def[symmetric] part_def by (rule refl)
  have "section_headers (report_header now pc_name
              @ (if all_components_selection self then overview_text [(''SYSTEM'', s1), (''CPU'', s2), (''GPU'', s3), (''RAM'', s4),
            (''DISK'', s5), (''NETWORK'', s6), (''MOTHERBOARD'', s7), (''BIOS'', s8)] else [])
              @ part)
      = (if all_components_selection self then
                  [''## **SYSTEM Information**'', ''## **CPU Information**'', ''## **GPU Information**'',
             ''## **RAM Information**'', ''## **DISK Information**'', ''## **NETWORK Information**'',
             ''## **MOTHERBOARD Information**'', ''## **BIOS Information**'']
                else []) @ part_headers"
    using section_headers_overview_text[OF s8, of part] part
    by (simp add: section_headers_report_header[OF assms(6)])
  then show ?thesis
    unfolding content part_headers_def by simp
qed

text \<open>
  An instance: the overview, and the details of the one selected key that the map knows.
\<close>

theorem section_header_naming_witness:
  "(case fst (compile_report_content
          \<lparr>components = [(''ram'', False), (''cpu'', True), (''keyboard'', True)],
             all_components_selection = True, detailed_report_option = False\<rparr>
          example_time
          (working_component ''System'' ''s1'' ''d1'') (working_component ''CPU'' ''s2'' ''d2'')
            (working_component ''GPU'' ''s3'' ''d3'') (working_component ''RAM'' ''s4'' ''d4'')
            (working_component ''Disk'' ''s5'' ''d5'') (working_component ''Network'' ''s6'' ''d6'')
            (working_component ''Motherboard'' ''s7'' ''d7'') (working_component ''BIOS'' ''s8'' ''d8'') ''My PC'' []) of
      Inl e \<Rightarrow> []
    | Inr content \<Rightarrow> section_headers content)
   = [''## **SYSTEM Information**'', ''## **CPU Information**'', ''## **GPU Information**'',
             ''## **RAM Information**'', ''## **DISK Information**'', ''## **NETWORK Information**'',
             ''## **MOTHERBOARD Information**'', ''## **BIOS Information**'',
             ''## Detailed Cpu Information'']"
  using section_header_naming[
      where system = "working_component ''System'' ''s1'' ''d1''"
        and cpu = "working_component ''CPU'' ''s2'' ''d2''"
        and gpu = "working_component ''GPU'' ''s3'' ''d3''"
        and ram = "working_component ''RAM'' ''s4'' ''d4''"
        and disk = "working_component ''Disk'' ''s5'' ''d5''"
        and network = "working_component ''Network'' ''s6'' ''d6''"
        and motherboard = "working_component ''Motherboard'' ''s7'' ''d7''"
        and bios = "working_component ''BIOS'' ''s8'' ''d8''"
        and ?s1.0 = "''s1''" and ?s2.0 = "''s2''" and ?s3.0 = "''s3''" and ?s4.0 = "''s4''"
        and ?s5.0 = "''s5''" and ?s6.0 = "''s6''" and ?s7.0 = "''s7''" and ?s8.0 = "''s8''"
        and ?d1.0 = "''d1''" and ?d2.0 = "''d2''" and ?d3.0 = "''d3''" and ?d4.0 = "''d4''"
        and ?d5.0 = "''d5''" and ?d6.0 = "''d6''" and ?d7.0 = "''d7''" and ?d8.0 = "''d8''"
        and self = "\<lparr>components = [(''ram'', False), (''cpu'', True), (''keyboard'', True)],
             all_components_selection = True, detailed_report_option = False\<rparr>"
        and now = example_time and pc_name = "''My PC''" and lg = "[]"]
  by (simp add: working_component_def hardware_classes_def component_keys_def
        section_headers_def is_section_header_def
        upper_char_def lower_char_def ascii_lowercase_def ascii_uppercase_def
        split: sum.splits)

text \<open>
  The claim as stated fails: the overview header carries bold markers, detailed mode
  writes \<open>SYSTEM\<close> where the selection writes \<open>System\<close>, and the selection writes
  \<open>Cpu\<close> where detailed mode writes \<open>CPU\<close>; the report of a selected cpu does not
  follow the convention.
\<close>

theorem section_header_naming_counterexample:
  "section_headers (case generate_overview [working_component ''CPU'' ''s'' ''d''] of
                      Inl e \<Rightarrow> [] | Inr content \<Rightarrow> content)
     = [''## **CPU Information**'']
   \<and> ''## **CPU Information**'' \<noteq> spec_overview_header ''CPU''
   \<and> section_headers (case generate_full_details [working_component ''System'' ''s'' ''d''] of
                      Inl e \<Rightarrow> [] | Inr content \<Rightarrow> content)
     = [''## Detailed SYSTEM Information'']
   \<and> ''## Detailed SYSTEM Information'' \<noteq> spec_detail_header ''System''
   \<and> section_headers (case fst (generate_selected_component_details
                        \<lparr>components = [(''cpu'', True)],
                           all_components_selection = False, detailed_report_option = False\<rparr>
                        (working_component ''System'' ''s1'' ''d1'') (working_component ''CPU'' ''s2'' ''d2'')
            (working_component ''GPU'' ''s3'' ''d3'') (working_component ''RAM'' ''s4'' ''d4'')
            (working_component ''Disk'' ''s5'' ''d5'') (working_component ''Network'' ''s6'' ''d6'')
            (working_component ''Motherboard'' ''s7'' ''d7'') (working_component ''BIOS'' ''s8'' ''d8'') []) of
                      Inl e \<Rightarrow> [] | Inr content \<Rightarrow> content)
     = [''## Detailed Cpu Information'']
   \<and> ''## Detailed Cpu Information'' \<noteq> spec_detail_header ''CPU''
   \<and> \<not> follows_naming_convention
         (case fst (compile_report_content
                      \<lparr>components = [(''cpu'', True)],
                         all_components_selection = False, detailed_report_option = False\<rparr>
                      example_time
                      (working_component ''System'' ''s1'' ''d1'') (working_component ''CPU'' ''s2'' ''d2'')
            (working_component ''GPU'' ''s3'' ''d3'') (working_component ''RAM'' ''s4'' ''d4'')
            (working_component ''Disk'' ''s5'' ''d5'') (working_component ''Network'' ''s6'' ''d6'')
            (working_component ''Motherboard'' ''s7'' ''d7'') (working_component ''BIOS'' ''s8'' ''d8'') [] []) of
            Inl e \<Rightarrow> [] | Inr content \<Rightarrow> content)"
proof -
  have ov: "generate_overview [working_component ''CPU'' ''s'' ''d'']
      = Inr ''# **Hardware Overview**\<newline>\<newline>## **CPU Information**\<newline>s\<newline>---\<newline>''"
    by (simp add: generate_overview_def working_component_def upper_class_names)
  have fd: "generate_full_details [working_component ''System'' ''s'' ''d'']
      = Inr ''\<newline>## Detailed SYSTEM Information\<newline>d\<newline>---\<newline>''"
    by (simp add: generate_full_details_def working_component_def upper_class_names)
  have sd: "fst (generate_selected_component_details
                        \<lparr>components = [(''cpu'', True)],
                           all_components_selection = False, detailed_report_option = False\<rparr>
                        (working_component ''System'' ''s1'' ''d1'') (working_component ''CPU'' ''s2'' ''d2'')
            (working_component ''GPU'' ''s3'' ''d3'') (working_component ''RAM'' ''s4'' ''d4'')
            (working_component ''Disk'' ''s5'' ''d5'') (working_component ''Network'' ''s6'' ''d6'')
            (working_component ''Motherboard'' ''s7'' ''d7'') (working_component ''BIOS'' ''s8'' ''d8'') lg)
      = Inr ''\<newline>## Detailed Cpu Information\<newline>d2\<newline>---\<newline>''" for lg
    by (simp add: generate_selected_component_details_def components_map_def working_component_def
          upper_char_def lower_char_def ascii_lowercase_def ascii_uppercase_def)
  have co: "fst (compile_report_content
                      \<lparr>components = [(''cpu'', True)],
                         all_components_selection = False, detailed_report_option = False\<rparr>
                      example_time
                      (working_component ''System'' ''s1'' ''d1'') (working_component ''CPU'' ''s2'' ''d2'')
            (working_component ''GPU'' ''s3'' ''d3'') (working_component ''RAM'' ''s4'' ''d4'')
            (working_component ''Disk'' ''s5'' ''d5'') (working_component ''Network'' ''s6'' ''d6'')
            (working_component ''Motherboard'' ''s7'' ''d7'') (working_component ''BIOS'' ''s8'' ''d8'') [] [])
      = Inr ''# Hardware Report\<newline>\<newline>**Generated on:** 2024-03-09 07:05:00\<newline>\<newline>## Detailed Cpu Information\<newline>d2\<newline>---\<newline>''"
    by (simp del: strftime.simps
          add: compile_report_content_def Let_def example_time_header fst_selected_case[OF sd])
  have h1: "section_headers ''# **Hardware Overview**\<newline>\<newline>## **CPU Information**\<newline>s\<newline>---\<newline>''
      = [''## **CPU Information**'']"
    by (simp add: section_headers_def is_section_header_def)
  have h2: "section_headers ''\<newline>## Detailed SYSTEM Information\<newline>d\<newline>---\<newline>''
      = [''## Detailed SYSTEM Information'']"
    by (simp add: section_headers_def is_section_header_def)
  have h3: "section_headers ''\<newline>## Detailed Cpu Information\<newline>d2\<newline>---\<newline>''
      = [''## Detailed Cpu Information'']"
    by (simp add: section_headers_def is_section_header_def)
  have h4: "section_headers ''# Hardware Report\<newline>\<newline>**Generated on:** 2024-03-09 07:05:00\<newline>\<newline>## Detailed Cpu Information\<newline>d2\<newline>---\<newline>''
      = [''## Detailed Cpu Information'']"
    by (simp add: section_headers_def is_section_header_def)
  have n: "''## Detailed Cpu Information''
      \<notin> set (map spec_overview_header hardware_classes @ map spec_detail_header hardware_classes)"
    by (simp add: hardware_classes_def spec_overview_header_def spec_detail_header_def
          upper_class_names)
  have nf: "\<not> follows_naming_convention
      ''# Hardware Report\<newline>\<newline>**Generated on:** 2024-03-09 07:05:00\<newline>\<newline>## Detailed Cpu Information\<newline>d2\<newline>---\<newline>''"
    unfolding follows_naming_convention_def h4 using n by simp
  show ?thesis
    unfolding ov fd sd co
    using nf
    by (simp add: h1 h2 h3 spec_overview_header_def spec_detail_header_def upper_class_names)
qed

subsection \<open>C1: a failure to write the report\<close>




subsection \<open>C3: expected versus actual\<close>




subsection \<open>C2: what the collectors return on a failure\<close>




end
